theory Spec2Isabelle
  imports Complex_Main "HOL-Library.Multiset"
begin

section \<open>Data model (models/game.model.js)\<close>

text \<open>
  The role of a player is a string of the source; the six strings that are ever stored are
  the constructors below (\<open>unassigned\<close> is the schema default).  The schema restricts
  \<open>state\<close> and \<open>currentPhase\<close> to the enumerations modelled by \<open>game_state\<close> and \<open>phase\<close>.
\<close>

datatype role = unassigned | Villager | Mafia | Godfather | Detective | Doctor

datatype game_state = St_waiting | St_inProgress | St_finished

datatype phase = Ph_waiting | Ph_nightMafia | Ph_nightDetective | Ph_nightDoctor | Ph_day | Ph_finished

record player =
  name :: string
  role :: role
  isAlive :: bool
  isReady :: bool
  socketId :: "string option"

text \<open>
  \<open>votes\<close> and \<open>mafiaVotes\<close> are Maps of the source: association lists in insertion order.
  The four scratch fields are a string or \<open>null\<close>.
\<close>

record game =
  gameId :: string
  state :: game_state
  currentPhase :: phase
  players :: "player list"
  maxPlayers :: nat
  votes :: "(string \<times> string) list"
  mafiaVotes :: "(string \<times> string) list"
  mafiaTarget :: "string option"
  detectiveResult :: "string option"
  doctorSave :: "string option"
  lastKilled :: "string option"

text \<open>
  What the server emits through socket.io, in order: the addressee (the room of the game, or
  one socket id, which may be \<open>null\<close>) and the event with its payload.  A snapshot payload
  (\<open>game.toJSON()\<close>) is the whole game document.
\<close>

datatype recipient = Room string | Socket "string option"

datatype event =
    GameUpdated game
  | GameStarted game
  | PhaseChanged phase
  | PhaseChangedKilled phase "string option"
  | AudioStarted
  | MafiaVoteCast string string
  | InvestigationResult string string
  | PlayerEliminated string string
  | NightResult string
  | DayVoteResult string
  | GameOver string "string list"
  | PrivateRole role
  | MafiaGang "string list"

type_synonym emitted = "(recipient \<times> event) list"

text \<open>JavaScript truthiness of a value that is a string or \<open>null\<close>: the empty string is falsy.\<close>

definition truthy :: "string option \<Rightarrow> bool" where
  "truthy v = (case v of None \<Rightarrow> False | Some s \<Rightarrow> s \<noteq> [])"

section \<open>Win evaluation (checkWinConditions)\<close>

definition checkWinConditions :: "game \<Rightarrow> game \<times> emitted" where
  "checkWinConditions game =
     (let alivePlayers = filter isAlive (players game);
          aliveMafia = length (filter (\<lambda>p. role p = Mafia \<or> role p = Godfather) alivePlayers);
          aliveVillagers = length (filter (\<lambda>p. role p = Villager \<or> role p = Detective \<or> role p = Doctor) alivePlayers);
          mafiaGang = map name (filter (\<lambda>p. role p = Mafia \<or> role p = Godfather) (players game))
      in if aliveMafia = 0 then
           (game\<lparr>state := St_finished, currentPhase := Ph_finished\<rparr>,
            [(Room (gameId game), GameOver ''Villagers'' mafiaGang)])
         else if aliveMafia \<ge> aliveVillagers then
           (game\<lparr>state := St_finished, currentPhase := Ph_finished\<rparr>,
            [(Room (gameId game), GameOver ''Mafia'' mafiaGang)])
         else (game, []))"


section \<open>Phase controller (setPhase) and night resolution (resolveNight)\<close>

text \<open>
  \<open>targetPlayer.isAlive = false\<close> after \<open>players.find\<close>: the first player that satisfies the
  predicate is the one mutated.
\<close>

fun update_first :: "('a \<Rightarrow> bool) \<Rightarrow> ('a \<Rightarrow> 'a) \<Rightarrow> 'a list \<Rightarrow> 'a list" where
  "update_first P f [] = []"
| "update_first P f (x # xs) = (if P x then f x # xs else x # update_first P f xs)"

text \<open>
  The part of \<open>resolveNight\<close> before its final call of \<open>setPhase\<close>: the kill, the two
  broadcasts of a death (or the one of a quiet night), and the clearing of the scratch fields.
\<close>

definition resolveNight_body :: "game \<Rightarrow> game \<times> emitted" where
  "resolveNight_body game =
     (let (game1, ev) =
        (if truthy (mafiaTarget game) \<and> mafiaTarget game \<noteq> doctorSave game then
           (case find (\<lambda>p. Some (name p) = mafiaTarget game) (players game) of
              Some targetPlayer \<Rightarrow>
                (game\<lparr>players := update_first (\<lambda>p. Some (name p) = mafiaTarget game)
                                    (\<lambda>p. p\<lparr>isAlive := False\<rparr>) (players game),
                      lastKilled := Some (name targetPlayer)\<rparr>,
                 [(Room (gameId game), PlayerEliminated (name targetPlayer) ''mafia''),
                  (Room (gameId game),
                   NightResult (''Night ends with the death of '' @ name targetPlayer))])
            | None \<Rightarrow> (game, []))
         else (game, [(Room (gameId game), NightResult ''Night ends with no deaths'')]))
      in (game1\<lparr>mafiaTarget := None, mafiaVotes := [], doctorSave := None,
                 detectiveResult := None\<rparr>, ev))"

text \<open>
  \<open>setPhase\<close> and \<open>resolveNight\<close> call each other.  Each returns the game it leaves and what
  it emitted.
\<close>

function setPhase :: "game \<Rightarrow> phase \<Rightarrow> game \<times> emitted"
  and resolveNight :: "game \<Rightarrow> game \<times> emitted" where
  "setPhase game0 ph =
     (let game = game0\<lparr>currentPhase := ph\<rparr> in
      if ph = Ph_nightDetective \<and> \<not> list_ex (\<lambda>p. role p = Detective \<and> isAlive p) (players game) then
        setPhase game Ph_nightDoctor
      else if ph = Ph_nightDoctor \<and> \<not> list_ex (\<lambda>p. role p = Doctor \<and> isAlive p) (players game) then
        resolveNight game
      else if ph = Ph_day then
        (let game' = game\<lparr>lastKilled := None\<rparr> in
         (game', [(Room (gameId game), PhaseChangedKilled ph (lastKilled game)),
                  (Room (gameId game), GameUpdated game'),
                  (Room (gameId game), AudioStarted)]))
      else if ph = Ph_nightMafia then
        (game, [(Room (gameId game), PhaseChanged ph), (Room (gameId game), GameUpdated game)])
      else
        (game, [(Room (gameId game), GameUpdated game), (Room (gameId game), PhaseChanged ph)]))"
| "resolveNight game =
     (let (game1, ev1) = resolveNight_body game;
          (game2, ev2) = setPhase game1 Ph_day
      in (game2, ev1 @ ev2))"
  by pat_completeness auto
termination
  by (relation "measure (\<lambda>x. case x of
         Inl (g, ph) \<Rightarrow> (if ph = Ph_nightDetective then 3 else if ph = Ph_nightDoctor then 2 else 0)
       | Inr g \<Rightarrow> 1)") auto


section \<open>The JavaScript values the vote handlers compute with\<close>

text \<open>
  A Map of the source (\<open>game.votes\<close>, \<open>game.mafiaVotes\<close>): \<open>set\<close> replaces the value of a key
  that is present, in place, and appends a new key; \<open>has\<close> tests the keys; \<open>size\<close> is the
  length; \<open>values()\<close> and \<open>forEach\<close> go in insertion order.  The schema declares both as
  Mongoose Maps, and the \<open>set\<close> of a Mongoose Map throws, before it stores anything, for a
  key that starts with \<open>$\<close>, contains a dot, or is one of the reserved names \<open>__proto__\<close>,
  \<open>constructor\<close> and \<open>prototype\<close>.
\<close>

fun put :: "'k \<Rightarrow> 'v \<Rightarrow> ('k \<times> 'v) list \<Rightarrow> ('k \<times> 'v) list" where
  "put k v [] = [(k, v)]"
| "put k v ((k', v') # ps) = (if k' = k then (k, v) # ps else (k', v') # put k v ps)"

definition Map_has :: "('k \<times> 'v) list \<Rightarrow> 'k \<Rightarrow> bool" where
  "Map_has m k = (map_of m k \<noteq> None)"

definition Map_key_refused :: "string \<Rightarrow> bool" where
  "Map_key_refused k =
     ((case k of [] \<Rightarrow> False | c # cs \<Rightarrow> c = CHR ''$'') \<or> CHR ''.'' \<in> set k
      \<or> k = ''__proto__'' \<or> k = ''constructor'' \<or> k = ''prototype'')"

definition Map_set :: "(string \<times> 'v) list \<Rightarrow> string \<Rightarrow> 'v \<Rightarrow> (string \<times> 'v) list option" where
  "Map_set m k v = (if Map_key_refused k then None else Some (put k v m))"

text \<open>
  The numbers a tally holds: a count, \<open>NaN\<close> (what \<open>++\<close> makes of a property that holds no
  number), and \<open>-Infinity\<close> (what \<open>Math.max()\<close> returns for no argument).
\<close>

datatype jsnum = NegInfinity | Num nat | NaN

fun js_incr :: "jsnum \<Rightarrow> jsnum" where
  "js_incr (Num n) = Num (Suc n)"
| "js_incr NaN = NaN"
| "js_incr NegInfinity = NegInfinity"

fun js_max2 :: "jsnum \<Rightarrow> jsnum \<Rightarrow> jsnum" where
  "js_max2 NaN b = NaN"
| "js_max2 a NaN = NaN"
| "js_max2 NegInfinity b = b"
| "js_max2 a NegInfinity = a"
| "js_max2 (Num a) (Num b) = Num (max a b)"

definition Math_max :: "jsnum list \<Rightarrow> jsnum" where
  "Math_max xs = fold (\<lambda>x acc. js_max2 acc x) xs NegInfinity"

text \<open>\<open>a === b\<close> on numbers: \<open>NaN\<close> equals nothing.\<close>

definition js_eq :: "jsnum \<Rightarrow> jsnum \<Rightarrow> bool" where
  "js_eq a b = (a \<noteq> NaN \<and> b \<noteq> NaN \<and> a = b)"

text \<open>\<open>a >= m\<close> for a tally value \<open>a\<close> and a count \<open>m\<close>.\<close>

fun js_ge :: "jsnum \<Rightarrow> nat \<Rightarrow> bool" where
  "js_ge (Num a) m = (m \<le> a)"
| "js_ge NaN m = False"
| "js_ge NegInfinity m = False"

text \<open>
  The tally object \<open>voteCount = {}\<close>: its own properties, in the order of their creation.
  \<open>voteCount[k] = v\<close> creates or overwrites the own property \<open>k\<close>, except for the key
  \<open>__proto__\<close>: that one is the accessor inherited from \<open>Object.prototype\<close>, whose setter
  ignores a number, so no own property appears.
\<close>

type_synonym jsobj = "(string \<times> jsnum) list"

definition obj_assign :: "jsobj \<Rightarrow> string \<Rightarrow> jsnum \<Rightarrow> jsobj" where
  "obj_assign obj k v = (if k = ''__proto__'' then obj else put k v obj)"

text \<open>
  \<open>voteCount[k]\<close> read as a number: the own property if there is one; otherwise the value is
  \<open>undefined\<close> or an object or function inherited from \<open>Object.prototype\<close>, and each of them
  converts to \<open>NaN\<close>.
\<close>

definition obj_get_num :: "jsobj \<Rightarrow> string \<Rightarrow> jsnum" where
  "obj_get_num obj k = (case map_of obj k of Some v \<Rightarrow> v | None \<Rightarrow> NaN)"

text \<open>\<open>voteCount[k]++\<close>.\<close>

definition obj_incr :: "jsobj \<Rightarrow> string \<Rightarrow> jsobj" where
  "obj_incr obj k = obj_assign obj k (js_incr (obj_get_num obj k))"

text \<open>
  The order in which \<open>Object.entries\<close> and \<open>Object.values\<close> list own properties: first the
  keys that are array indices (the canonical decimal strings of the integers from 0 to
  \<open>2^32 - 2\<close>), in ascending numeric order, then every other key in creation order.
\<close>

definition digit_of :: "char \<Rightarrow> nat option" where
  "digit_of c = map_of (zip ''0123456789'' [0, 1, 2, 3, 4, 5, 6, 7, 8, 9]) c"

fun decimal_value :: "nat \<Rightarrow> string \<Rightarrow> nat option" where
  "decimal_value acc [] = Some acc"
| "decimal_value acc (c # cs) =
     (case digit_of c of None \<Rightarrow> None | Some d \<Rightarrow> decimal_value (10 * acc + d) cs)"

definition array_index :: "string \<Rightarrow> nat option" where
  "array_index k =
     (case k of
        [] \<Rightarrow> None
      | c # cs \<Rightarrow>
          if c = CHR ''0'' \<and> cs \<noteq> [] then None
          else (case decimal_value 0 k of
                  None \<Rightarrow> None
                | Some n \<Rightarrow> if n < 2 ^ 32 - 1 then Some n else None))"

definition index_key :: "string \<times> 'v \<Rightarrow> nat" where
  "index_key e = (case array_index (fst e) of Some n \<Rightarrow> n | None \<Rightarrow> 0)"

definition Object_entries :: "(string \<times> 'v) list \<Rightarrow> (string \<times> 'v) list" where
  "Object_entries obj =
     sort_key index_key (filter (\<lambda>e. array_index (fst e) \<noteq> None) obj)
     @ filter (\<lambda>e. array_index (fst e) = None) obj"

text \<open>
  Lines 149 to 151 and 257 to 259: every player's name gets the tally 0, then every recorded
  vote increments the tally of its target.
\<close>

definition voteCount_of :: "player list \<Rightarrow> (string \<times> string) list \<Rightarrow> jsobj" where
  "voteCount_of ps vs =
     fold (\<lambda>(voter, target) obj. obj_incr obj target) vs
       (fold (\<lambda>p obj. obj_assign obj (name p) (Num 0)) ps [])"


section \<open>The request handlers\<close>

text \<open>
  A handler gets the document that \<open>Game.findOne\<close> returned (\<open>None\<close> for \<open>null\<close>) and the
  two names of the request body.  It returns the HTTP response, the document as the store
  holds it afterwards, and what was emitted.  An exception inside the handler's \<open>try\<close> block
  is answered with status 500; the store then holds what the last \<open>save\<close> wrote.  The two
  exceptions of the handlers are the refusal of a key by \<open>set\<close>, before anything is changed,
  and the write to \<open>eliminatedPlayer\<close> in \<open>dayVote\<close> if no player had the eliminated name.
\<close>

datatype response = Json game | Status400 string | Status500

type_synonym outcome = "response \<times> game option \<times> emitted"

subsection \<open>mafiaVote\<close>

text \<open>Lines 149 to 166: the target that a complete ledger selects.\<close>

definition mafiaVote_resolve :: "game \<Rightarrow> string option" where
  "mafiaVote_resolve game =
     (let voteCount = voteCount_of (players game) (mafiaVotes game);
          maxVotes = Math_max (map snd (Object_entries voteCount));
          candidates = map fst (filter (\<lambda>(name, count). js_eq count maxVotes) (Object_entries voteCount))
      in if length candidates = 1 then Some (candidates ! 0)
         else if length candidates > 1 then
           (let voteOrder = map snd (mafiaVotes game)
            in find (\<lambda>t. t \<in> set candidates) (rev voteOrder))
         else None)"

definition mafiaVote :: "game option \<Rightarrow> string \<Rightarrow> string \<Rightarrow> outcome" where
  "mafiaVote found voterName targetName =
     (case found of
        None \<Rightarrow> (Status400 ''Mafia can only vote during mafia phase'', None, [])
      | Some game \<Rightarrow>
          if state game \<noteq> St_inProgress \<or> currentPhase game \<noteq> Ph_nightMafia then
            (Status400 ''Mafia can only vote during mafia phase'', Some game, [])
          else
            (case find (\<lambda>p. (role p = Mafia \<or> role p = Godfather) \<and> name p = voterName \<and> isAlive p)
                    (players game) of
               None \<Rightarrow> (Status400 ''Invalid voter'', Some game, [])
             | Some voter \<Rightarrow>
                 if Map_has (mafiaVotes game) voterName then
                   (Status400 ''You have already voted'', Some game, [])
                 else
                   (case find (\<lambda>p. name p = targetName \<and> isAlive p) (players game) of
                      None \<Rightarrow> (Status400 ''Invalid target'', Some game, [])
                    | Some target \<Rightarrow>
                        (case Map_set (mafiaVotes game) voterName targetName of
                           None \<Rightarrow> (Status500, Some game, [])
                         | Some recorded \<Rightarrow>
                        (let game1 = game\<lparr>mafiaVotes := recorded\<rparr>;
                             mafiaSocketIds =
                               map socketId
                                 (filter (\<lambda>p. (role p = Mafia \<or> role p = Godfather) \<and> isAlive p)
                                    (players game1));
                             ev1 = map (\<lambda>sid. (Socket sid, MafiaVoteCast voterName targetName))
                                     mafiaSocketIds;
                             livingMafiaCount =
                               length (filter (\<lambda>p. (role p = Mafia \<or> role p = Godfather) \<and> isAlive p)
                                         (players game1))
                         in if length (mafiaVotes game1) = livingMafiaCount then
                              (let game2 = game1\<lparr>mafiaTarget := mafiaVote_resolve game1\<rparr>;
                                   (game3, ev2) = setPhase game2 Ph_nightDetective
                               in (Json game3, Some game3, ev1 @ ev2))
                            else (Json game1, Some game1, ev1))))))"

subsection \<open>investigate\<close>

definition investigate :: "game option \<Rightarrow> string \<Rightarrow> string \<Rightarrow> outcome" where
  "investigate found investigatorName targetName =
     (case found of
        None \<Rightarrow> (Status400 ''Detective can only investigate during detective phase'', None, [])
      | Some game \<Rightarrow>
          if state game \<noteq> St_inProgress \<or> currentPhase game \<noteq> Ph_nightDetective then
            (Status400 ''Detective can only investigate during detective phase'', Some game, [])
          else
            (case find (\<lambda>p. name p = investigatorName \<and> role p = Detective \<and> isAlive p)
                    (players game) of
               None \<Rightarrow> (Status400 ''Invalid investigator'', Some game, [])
             | Some investigator \<Rightarrow>
                 if truthy (detectiveResult game) then
                   (Status400 ''You have already investigated'', Some game, [])
                 else
                   (case find (\<lambda>p. name p = targetName \<and> isAlive p) (players game) of
                      None \<Rightarrow> (Status400 ''Invalid target'', Some game, [])
                    | Some target \<Rightarrow>
                        (let result = (if role target = Godfather then ''-ve''
                                       else if role target = Mafia then ''+ve'' else ''-ve'');
                             game1 = game\<lparr>detectiveResult := Some result\<rparr>;
                             ev1 = [(Socket (socketId investigator),
                                     InvestigationResult targetName result)];
                             (game2, ev2) = setPhase game1 Ph_nightDoctor
                         in (Json game2, Some game2, ev1 @ ev2)))))"

subsection \<open>doctorSave\<close>

definition doctorSave_handler :: "game option \<Rightarrow> string \<Rightarrow> string \<Rightarrow> outcome" where
  "doctorSave_handler found doctorName targetName =
     (case found of
        None \<Rightarrow> (Status400 ''Doctor can only save during doctor phase'', None, [])
      | Some game \<Rightarrow>
          if state game \<noteq> St_inProgress \<or> currentPhase game \<noteq> Ph_nightDoctor then
            (Status400 ''Doctor can only save during doctor phase'', Some game, [])
          else
            (case find (\<lambda>p. name p = doctorName \<and> role p = Doctor \<and> isAlive p) (players game) of
               None \<Rightarrow> (Status400 ''Invalid doctor'', Some game, [])
             | Some doctor \<Rightarrow>
                 (case find (\<lambda>p. name p = targetName \<and> isAlive p) (players game) of
                    None \<Rightarrow> (Status400 ''Invalid target'', Some game, [])
                  | Some target \<Rightarrow>
                      (let game1 = game\<lparr>doctorSave := Some targetName\<rparr>;
                           (game2, ev) = resolveNight game1
                       in (Json game2, Some game2, ev)))))"

subsection \<open>dayVote\<close>

text \<open>
  Lines 257 to 270: the name that a complete day ledger eliminates, if any.
  \<open>livingPlayers\<close> is the number of alive players, and \<open>Math.ceil(livingPlayers / 2)\<close> is
  \<open>(livingPlayers + 1) div 2\<close>.  \<open>candidates[0]\<close> of an empty array is \<open>undefined\<close>, which is
  as falsy as the initial \<open>null\<close>.
\<close>

definition dayVote_resolve :: "game \<Rightarrow> nat \<Rightarrow> string option" where
  "dayVote_resolve game livingPlayers =
     (let voteCount = voteCount_of (players game) (votes game);
          majority = (livingPlayers + 1) div 2;
          maxVotes = Math_max (map snd (Object_entries voteCount))
      in if js_ge maxVotes majority then
           (let candidates = map fst (filter (\<lambda>(_, count). js_eq count maxVotes)
                                        (Object_entries voteCount))
            in case candidates of [] \<Rightarrow> None | c # _ \<Rightarrow> Some c)
         else None)"

text \<open>
  Lines 280 to 286: what \<open>dayVote\<close> does after the elimination step, on the game so far and
  what was emitted so far.
\<close>

definition dayVote_finish :: "game \<Rightarrow> emitted \<Rightarrow> outcome" where
  "dayVote_finish game ev =
     (let game2 = game\<lparr>votes := []\<rparr>;
          (game3, ev3) = checkWinConditions game2
      in if state game3 \<noteq> St_finished then
           (let (game4, ev4) = setPhase game3 Ph_nightMafia
            in (Json game4, Some game4, ev @ ev3 @ ev4))
         else (Json game3, Some game3, ev @ ev3))"

definition dayVote :: "game option \<Rightarrow> string \<Rightarrow> string \<Rightarrow> outcome" where
  "dayVote found voterName targetName =
     (case found of
        None \<Rightarrow> (Status400 ''Voting only allowed during day phase'', None, [])
      | Some game \<Rightarrow>
          if state game \<noteq> St_inProgress \<or> currentPhase game \<noteq> Ph_day then
            (Status400 ''Voting only allowed during day phase'', Some game, [])
          else
            (case find (\<lambda>p. name p = voterName \<and> isAlive p) (players game) of
               None \<Rightarrow> (Status400 ''Invalid voter'', Some game, [])
             | Some voter \<Rightarrow>
                 if Map_has (votes game) voterName then
                   (Status400 ''You have already voted'', Some game, [])
                 else
                   (case find (\<lambda>p. name p = targetName \<and> isAlive p) (players game) of
                      None \<Rightarrow> (Status400 ''Invalid target'', Some game, [])
                    | Some target \<Rightarrow>
                        (case Map_set (votes game) voterName targetName of
                           None \<Rightarrow> (Status500, Some game, [])
                         | Some recorded \<Rightarrow>
                        (let game1 = game\<lparr>votes := recorded\<rparr>;
                             ev1 = [(Room (gameId game1), GameUpdated game1)];
                             livingPlayers = length (filter isAlive (players game1))
                         in if length (votes game1) = livingPlayers then
                              (case dayVote_resolve game1 livingPlayers of
                                 None \<Rightarrow> dayVote_finish game1 ev1
                               | Some eliminated \<Rightarrow>
                                   if truthy (Some eliminated) then
                                     (case find (\<lambda>p. name p = eliminated) (players game1) of
                                        None \<Rightarrow> (Status500, Some game1, ev1)
                                      | Some eliminatedPlayer \<Rightarrow>
                                          dayVote_finish
                                            (game1\<lparr>players := update_first (\<lambda>p. name p = eliminated)
                                                       (\<lambda>p. p\<lparr>isAlive := False\<rparr>) (players game1),
                                                    lastKilled := Some eliminated\<rparr>)
                                            (ev1 @ [(Room (gameId game1),
                                                     PlayerEliminated eliminated ''vote''),
                                                    (Room (gameId game1), DayVoteResult eliminated)]))
                                   else dayVote_finish game1 ev1)
                            else (Json game1, Some game1, ev1))))))"


section \<open>Role assignment (startGame)\<close>

text \<open>\<open>Array(n).fill(v)\<close>: the constructor throws a RangeError for a negative length.\<close>

datatype error = RangeError

definition Array_fill :: "int \<Rightarrow> 'a \<Rightarrow> error + 'a list" where
  "Array_fill n v = (if n < 0 then Inl RangeError else Inr (replicate (nat n) v))"

text \<open>Lines 304 to 317: the role array for a number of players.\<close>

definition startGame_roles :: "nat \<Rightarrow> error + role list" where
  "startGame_roles totalPlayers =
     (let mafiaCount = int totalPlayers div 3;
          godfatherCount = (if mafiaCount > 1 then 1 else 0);
          regularMafiaCount = mafiaCount - godfatherCount;
          specialRolesCount = regularMafiaCount + godfatherCount + 2
      in case Array_fill regularMafiaCount Mafia of
           Inl e \<Rightarrow> Inl e
         | Inr mafias \<Rightarrow>
             (case Array_fill godfatherCount Godfather of
                Inl e \<Rightarrow> Inl e
              | Inr godfathers \<Rightarrow>
                  (case Array_fill (int totalPlayers - specialRolesCount) Villager of
                     Inl e \<Rightarrow> Inl e
                   | Inr villagers \<Rightarrow>
                       Inr (mafias @ godfathers @ [Detective, Doctor] @ villagers))))"

text \<open>
  \<open>Math.random()\<close> returns a number in the interval from 0 (included) to 1 (excluded).  The
  random source is a parameter \<open>rnd\<close>: the draw made in the loop iteration with index \<open>i\<close> is
  the fractional part of \<open>rnd i\<close>, so every source is a legal one and every legal sequence
  of draws is some source.
\<close>

definition Math_random :: "(nat \<Rightarrow> real) \<Rightarrow> nat \<Rightarrow> real" where
  "Math_random rnd i = frac (rnd i)"

text \<open>\<open>[a[i], a[j]] = [a[j], a[i]]\<close>: both reads precede both writes.\<close>

definition swap :: "'a list \<Rightarrow> nat \<Rightarrow> nat \<Rightarrow> 'a list" where
  "swap xs i j = xs[i := xs ! j, j := xs ! i]"

fun shuffle_loop :: "(nat \<Rightarrow> real) \<Rightarrow> nat \<Rightarrow> 'a list \<Rightarrow> 'a list" where
  "shuffle_loop rnd 0 shuffled = shuffled"
| "shuffle_loop rnd (Suc i') shuffled =
     (let i = Suc i';
          j = nat \<lfloor>Math_random rnd i * real (i + 1)\<rfloor>
      in shuffle_loop rnd i' (swap shuffled i j))"

definition shuffleArray :: "(nat \<Rightarrow> real) \<Rightarrow> 'a list \<Rightarrow> 'a list" where
  "shuffleArray rnd array = shuffle_loop rnd (length array - 1) array"

text \<open>
  \<open>startGame\<close>: an exception leaves the function before anything is saved or emitted, so the
  result is the error alone.
\<close>

definition startGame :: "(nat \<Rightarrow> real) \<Rightarrow> game \<Rightarrow> error + (game \<times> emitted)" where
  "startGame rnd game0 =
     (let game = game0\<lparr>state := St_inProgress, currentPhase := Ph_nightMafia\<rparr>;
          totalPlayers = length (players game)
      in case startGame_roles totalPlayers of
           Inl e \<Rightarrow> Inl e
         | Inr roles \<Rightarrow>
             (let shuffledRoles = shuffleArray rnd roles;
                  game1 = game\<lparr>players :=
                            map (\<lambda>(index, player). player\<lparr>role := shuffledRoles ! index\<rparr>)
                              (enumerate 0 (players game))\<rparr>;
                  ev1 = map (\<lambda>player. (Socket (socketId player), PrivateRole (role player)))
                          (players game1);
                  mafiaGang = map name (filter (\<lambda>p. role p = Mafia \<or> role p = Godfather)
                                          (players game1));
                  ev2 = map (\<lambda>player. (Socket (socketId player), MafiaGang mafiaGang))
                          (filter (\<lambda>player. role player = Mafia \<or> role player = Godfather)
                             (players game1))
              in Inr (game1, ev1 @ ev2 @ [(Room (gameId game1), GameStarted game1),
                                          (Room (gameId game1), GameUpdated game1)])))"


section \<open>Notions the properties are stated with\<close>

text \<open>The two head counts of the win evaluation, and the names of the mafia gang.\<close>

definition aliveMafia :: "game \<Rightarrow> nat" where
  "aliveMafia g = length (filter (\<lambda>p. isAlive p \<and> (role p = Mafia \<or> role p = Godfather)) (players g))"

definition aliveTown :: "game \<Rightarrow> nat" where
  "aliveTown g =
     length (filter (\<lambda>p. isAlive p \<and> (role p = Villager \<or> role p = Detective \<or> role p = Doctor))
               (players g))"

definition mafiaGang_of :: "game \<Rightarrow> string list" where
  "mafiaGang_of g = map name (filter (\<lambda>p. role p = Mafia \<or> role p = Godfather) (players g))"

text \<open>Kinds of events.\<close>

fun is_GameOver :: "event \<Rightarrow> bool" where
  "is_GameOver (GameOver w gang) = True"
| "is_GameOver e = False"

fun is_InvestigationResult :: "event \<Rightarrow> bool" where
  "is_InvestigationResult (InvestigationResult t r) = True"
| "is_InvestigationResult e = False"

text \<open>The events that a phase change or a night resolution emits.\<close>

fun phase_event :: "event \<Rightarrow> bool" where
  "phase_event (GameUpdated g) = True"
| "phase_event (PhaseChanged ph) = True"
| "phase_event (PhaseChangedKilled ph k) = True"
| "phase_event AudioStarted = True"
| "phase_event (PlayerEliminated n by) = True"
| "phase_event (NightResult m) = True"
| "phase_event e = False"

text \<open>Whether some alive player has the role.\<close>

definition alive_with_role :: "role \<Rightarrow> game \<Rightarrow> bool" where
  "alive_with_role r g = list_ex (\<lambda>p. role p = r \<and> isAlive p) (players g)"

text \<open>The number of recorded votes for a target.\<close>

definition tally :: "(string \<times> string) list \<Rightarrow> string \<Rightarrow> nat" where
  "tally vs t = length (filter (\<lambda>v. snd v = t) vs)"

text \<open>The order in which \<open>Object.entries\<close> lists a sequence of distinct keys.\<close>

definition own_keys_order :: "string list \<Rightarrow> string list" where
  "own_keys_order ks = map fst (Object_entries (map (\<lambda>k. (k, ())) ks))"

text \<open>
  The highest tally among the names, and the names that reach it, in the order in which the
  tally object lists them.
\<close>

definition top_tally :: "string list \<Rightarrow> (string \<times> string) list \<Rightarrow> nat" where
  "top_tally names vs = Max (tally vs ` set names)"

definition top_candidates :: "string list \<Rightarrow> (string \<times> string) list \<Rightarrow> string list" where
  "top_candidates names vs = filter (\<lambda>k. tally vs k = top_tally names vs) (own_keys_order names)"

text \<open>
  The villager remainder of the role assignment, \<open>N - regularMafiaCount - godfatherCount - 2\<close>,
  and the role array in the order in which it is built.
\<close>

definition godfatherCount :: "nat \<Rightarrow> nat" where
  "godfatherCount N = (if N div 3 > 1 then 1 else 0)"

definition villager_remainder :: "nat \<Rightarrow> int" where
  "villager_remainder N = int N - (int (N div 3) - int (godfatherCount N)) - int (godfatherCount N) - 2"

definition role_array :: "nat \<Rightarrow> role list" where
  "role_array N =
     replicate (N div 3 - godfatherCount N) Mafia @ replicate (godfatherCount N) Godfather
     @ [Detective, Doctor] @ replicate (N - N div 3 - 2) Villager"

section \<open>Example sessions\<close>

definition mk_player :: "string \<Rightarrow> role \<Rightarrow> bool \<Rightarrow> player" where
  "mk_player n r a = \<lparr>name = n, role = r, isAlive = a, isReady = True, socketId = Some (''s-'' @ n)\<rparr>"

definition mk_game :: "phase \<Rightarrow> player list \<Rightarrow> game" where
  "mk_game ph ps =
     \<lparr>gameId = ''g'', state = St_inProgress, currentPhase = ph, players = ps, maxPlayers = 10,
      votes = [], mafiaVotes = [], mafiaTarget = None, detectiveResult = None,
      doctorSave = None, lastKilled = None\<rparr>"

definition town_wins_game :: game where
  "town_wins_game = mk_game Ph_day
     [mk_player ''ann'' Mafia False, mk_player ''bob'' Godfather False,
      mk_player ''cy'' Detective True, mk_player ''dee'' Doctor False, mk_player ''eve'' Villager True,
      mk_player ''fay'' Villager True]"

definition mafia_wins_game :: game where
  "mafia_wins_game = mk_game Ph_day
     [mk_player ''ann'' Mafia True, mk_player ''bob'' Godfather False,
      mk_player ''cy'' Detective False, mk_player ''dee'' Doctor False, mk_player ''eve'' Villager True,
      mk_player ''fay'' Villager False]"

definition undecided_game :: game where
  "undecided_game = mk_game Ph_day
     [mk_player ''ann'' Mafia True, mk_player ''bob'' Godfather False,
      mk_player ''cy'' Detective True, mk_player ''dee'' Doctor False, mk_player ''eve'' Villager True,
      mk_player ''fay'' Villager False]"

definition night_kill_game :: game where
  "night_kill_game =
     (mk_game Ph_nightDoctor
        [mk_player ''ann'' Mafia True, mk_player ''bob'' Godfather True,
         mk_player ''cy'' Detective True, mk_player ''dee'' Doctor True,
         mk_player ''eve'' Villager True, mk_player ''fay'' Villager True])
     \<lparr>mafiaVotes := [(''ann'', ''eve''), (''bob'', ''eve'')], mafiaTarget := Some ''eve'',
      detectiveResult := Some ''-ve'', doctorSave := Some ''dee''\<rparr>"

definition self_save_game :: game where
  "self_save_game =
     (mk_game Ph_nightDoctor
        [mk_player ''ann'' Mafia True, mk_player ''bob'' Godfather True,
         mk_player ''cy'' Detective True, mk_player ''dee'' Doctor True,
         mk_player ''eve'' Villager True, mk_player ''fay'' Villager True])
     \<lparr>mafiaVotes := [(''ann'', ''dee''), (''bob'', ''dee'')], mafiaTarget := Some ''dee'',
      detectiveResult := Some ''-ve'', doctorSave := Some ''dee''\<rparr>"

definition no_detective_game :: game where
  "no_detective_game =
     (mk_game Ph_nightMafia
        [mk_player ''ann'' Mafia True, mk_player ''bob'' Godfather True,
         mk_player ''cy'' Detective False, mk_player ''dee'' Doctor True,
         mk_player ''eve'' Villager True, mk_player ''fay'' Villager True])
     \<lparr>mafiaVotes := [(''ann'', ''eve''), (''bob'', ''eve'')], mafiaTarget := Some ''eve''\<rparr>"

definition no_detective_no_doctor_game :: game where
  "no_detective_no_doctor_game =
     (mk_game Ph_nightMafia
        [mk_player ''ann'' Mafia True, mk_player ''bob'' Godfather True,
         mk_player ''cy'' Detective False, mk_player ''dee'' Doctor False,
         mk_player ''eve'' Villager True, mk_player ''fay'' Villager True])
     \<lparr>mafiaVotes := [(''ann'', ''eve''), (''bob'', ''eve'')], mafiaTarget := Some ''eve''\<rparr>"

definition night_mafia_game :: game where
  "night_mafia_game =
     (mk_game Ph_nightMafia
        [mk_player ''ann'' Mafia True, mk_player ''bob'' Godfather True,
         mk_player ''cy'' Detective True, mk_player ''dee'' Doctor True,
         mk_player ''eve'' Villager True, mk_player ''fay'' Villager False])
     \<lparr>mafiaVotes := [(''ann'', ''eve'')]\<rparr>"

definition investigation_game :: game where
  "investigation_game =
     (mk_game Ph_nightDetective
        [mk_player ''ann'' Mafia True, mk_player ''bob'' Godfather True,
         mk_player ''cy'' Detective True, mk_player ''dee'' Doctor True,
         mk_player ''eve'' Villager True, mk_player ''fay'' Villager True])
     \<lparr>mafiaVotes := [(''ann'', ''eve''), (''bob'', ''eve'')], mafiaTarget := Some ''eve''\<rparr>"

definition last_townsman_game :: game where
  "last_townsman_game =
     (mk_game Ph_nightDoctor
        [mk_player ''ann'' Mafia True, mk_player ''bob'' Godfather False,
         mk_player ''cy'' Detective False, mk_player ''dee'' Doctor True,
         mk_player ''eve'' Villager False, mk_player ''fay'' Villager False])
     \<lparr>mafiaVotes := [(''ann'', ''dee'')], mafiaTarget := Some ''dee''\<rparr>"

definition waiting_game :: game where
  "waiting_game =
     (mk_game Ph_waiting
        [mk_player ''ann'' unassigned True, mk_player ''bob'' unassigned True,
         mk_player ''cy'' unassigned True, mk_player ''dee'' unassigned True,
         mk_player ''eve'' unassigned True, mk_player ''fay'' unassigned True])
     \<lparr>state := St_waiting\<rparr>"

definition lonely_game :: game where
  "lonely_game = (mk_game Ph_waiting [mk_player ''ann'' unassigned True])\<lparr>state := St_waiting\<rparr>"

definition day_game :: game where
  "day_game =
     (mk_game Ph_day
        [mk_player ''ann'' Mafia True, mk_player ''bob'' Godfather False,
         mk_player ''cy'' Detective True, mk_player ''dee'' Doctor True,
         mk_player ''eve'' Villager True, mk_player ''fay'' Villager False])
     \<lparr>votes := [(''ann'', ''cy''), (''eve'', ''dee''), (''cy'', ''dee'')]\<rparr>"

definition numbered_day_game :: game where
  "numbered_day_game =
     (mk_game Ph_day
        [mk_player ''10'' Mafia True, mk_player ''9'' Villager True,
         mk_player ''ann'' Villager True, mk_player ''bob'' Doctor True])
     \<lparr>votes := [(''ann'', ''10''), (''bob'', ''9''), (''10'', ''9'')]\<rparr>"

definition proto_night_game :: game where
  "proto_night_game =
     mk_game Ph_nightMafia
       [mk_player ''ann'' Mafia True, mk_player ''__proto__'' Villager True,
        mk_player ''cy'' Detective True, mk_player ''dee'' Doctor True,
        mk_player ''eve'' Villager True]"

section \<open>Phase changes, unfolded\<close>

declare setPhase.simps [simp del] resolveNight.simps [simp del]

lemma setPhase_day:
  "setPhase g Ph_day =
     (g\<lparr>currentPhase := Ph_day, lastKilled := None\<rparr>,
      [(Room (gameId g), PhaseChangedKilled Ph_day (lastKilled g)),
       (Room (gameId g), GameUpdated (g\<lparr>currentPhase := Ph_day, lastKilled := None\<rparr>)),
       (Room (gameId g), AudioStarted)])"
  by (simp add: setPhase.simps [of g Ph_day] Let_def)

lemma setPhase_nightMafia:
  "setPhase g Ph_nightMafia =
     (g\<lparr>currentPhase := Ph_nightMafia\<rparr>,
      [(Room (gameId g), PhaseChanged Ph_nightMafia),
       (Room (gameId g), GameUpdated (g\<lparr>currentPhase := Ph_nightMafia\<rparr>))])"
  by (simp add: setPhase.simps [of g Ph_nightMafia] Let_def)

lemma resolveNight_unfold:
  "resolveNight g =
     (fst (setPhase (fst (resolveNight_body g)) Ph_day),
      snd (resolveNight_body g) @ snd (setPhase (fst (resolveNight_body g)) Ph_day))"
  by (simp add: resolveNight.simps [of g] split_beta Let_def)

lemma setPhase_nightDoctor:
  "setPhase g Ph_nightDoctor =
     (if alive_with_role Doctor g then
        (g\<lparr>currentPhase := Ph_nightDoctor\<rparr>,
         [(Room (gameId g), GameUpdated (g\<lparr>currentPhase := Ph_nightDoctor\<rparr>)),
          (Room (gameId g), PhaseChanged Ph_nightDoctor)])
      else resolveNight (g\<lparr>currentPhase := Ph_nightDoctor\<rparr>))"
  by (simp add: setPhase.simps [of g Ph_nightDoctor] Let_def alive_with_role_def)

lemma setPhase_currentPhase_irrelevant:
  "setPhase (g\<lparr>currentPhase := x\<rparr>) ph = setPhase g ph"
  by (simp add: setPhase.simps [of "g\<lparr>currentPhase := x\<rparr>" ph] setPhase.simps [of g ph] Let_def)

lemma setPhase_nightDetective:
  "setPhase g Ph_nightDetective =
     (if alive_with_role Detective g then
        (g\<lparr>currentPhase := Ph_nightDetective\<rparr>,
         [(Room (gameId g), GameUpdated (g\<lparr>currentPhase := Ph_nightDetective\<rparr>)),
          (Room (gameId g), PhaseChanged Ph_nightDetective)])
      else setPhase g Ph_nightDoctor)"
  by (simp add: setPhase.simps [of g Ph_nightDetective] Let_def alive_with_role_def
        setPhase_currentPhase_irrelevant)



lemma resolveNight_body_fields:
  "mafiaTarget (fst (resolveNight_body g)) = None"
  "mafiaVotes (fst (resolveNight_body g)) = []"
  "doctorSave (fst (resolveNight_body g)) = None"
  "detectiveResult (fst (resolveNight_body g)) = None"
  "state (fst (resolveNight_body g)) = state g"
  "currentPhase (fst (resolveNight_body g)) = currentPhase g"
  "gameId (fst (resolveNight_body g)) = gameId g"
  "votes (fst (resolveNight_body g)) = votes g"
  by (simp_all add: resolveNight_body_def Let_def split_beta split: option.splits)

lemma resolveNight_body_players:
  "players (fst (resolveNight_body g)) =
     (if truthy (mafiaTarget g) \<and> mafiaTarget g \<noteq> doctorSave g then
        update_first (\<lambda>p. Some (name p) = mafiaTarget g) (\<lambda>p. p\<lparr>isAlive := False\<rparr>) (players g)
      else players g)"
proof -
  have nf: "find P xs = None \<Longrightarrow> update_first P f xs = xs" for P f and xs :: "player list"
    by (induction xs) (auto split: if_splits)
  show ?thesis
    by (auto simp: resolveNight_body_def Let_def split_beta nf split: option.splits)
qed

lemma resolveNight_body_lastKilled:
  "lastKilled (fst (resolveNight_body g)) =
     (if truthy (mafiaTarget g) \<and> mafiaTarget g \<noteq> doctorSave g
         \<and> find (\<lambda>p. Some (name p) = mafiaTarget g) (players g) \<noteq> None
      then mafiaTarget g else lastKilled g)"
proof (cases "find (\<lambda>p. Some (name p) = mafiaTarget g) (players g)")
  case None
  then show ?thesis by (simp add: resolveNight_body_def Let_def split_beta)
next
  case (Some p)
  then have "Some (name p) = mafiaTarget g" by (auto simp: find_Some_iff)
  with Some show ?thesis by (simp add: resolveNight_body_def Let_def split_beta)
qed

lemma resolveNight_body_events:
  "e \<in> set (snd (resolveNight_body g)) \<Longrightarrow> fst e = Room (gameId g) \<and> phase_event (snd e)"
  by (auto simp: resolveNight_body_def Let_def split_beta split: option.splits if_splits)

lemma resolveNight_result:
  "fst (resolveNight g) = (fst (resolveNight_body g))\<lparr>currentPhase := Ph_day, lastKilled := None\<rparr>"
  by (simp add: resolveNight_unfold setPhase_day)

lemma resolveNight_events:
  "e \<in> set (snd (resolveNight g)) \<Longrightarrow> fst e = Room (gameId g) \<and> phase_event (snd e)"
  by (auto simp: resolveNight_unfold setPhase_day resolveNight_body_fields
       dest: resolveNight_body_events)

lemma setPhase_events:
  "e \<in> set (snd (setPhase g ph)) \<Longrightarrow> fst e = Room (gameId g) \<and> phase_event (snd e)"
proof (cases ph)
  case Ph_nightDetective
  assume "e \<in> set (snd (setPhase g ph))"
  with Ph_nightDetective show ?thesis
    by (auto simp: setPhase_nightDetective setPhase_nightDoctor split: if_splits
          dest!: resolveNight_events)
next
  case Ph_nightDoctor
  assume "e \<in> set (snd (setPhase g ph))"
  with Ph_nightDoctor show ?thesis
    by (auto simp: setPhase_nightDoctor split: if_splits dest!: resolveNight_events)
qed (auto simp: setPhase_day setPhase_nightMafia setPhase.simps [of g Ph_waiting]
        setPhase.simps [of g Ph_finished] Let_def)

lemma setPhase_state: "state (fst (setPhase g ph)) = state g"
  by (cases ph)
     (simp_all add: setPhase_day setPhase_nightMafia setPhase.simps [of g Ph_waiting]
        setPhase.simps [of g Ph_finished] Let_def setPhase_nightDetective setPhase_nightDoctor
        resolveNight_result resolveNight_body_fields)

section \<open>Win evaluation and night resolution\<close>

lemma update_first_find:
  "find P xs = Some p \<Longrightarrow> P (f p) \<Longrightarrow> find P (update_first P f xs) = Some (f p)"
  by (induction xs) (auto split: if_splits)

lemma update_first_length [simp]: "length (update_first P f xs) = length xs"
  by (induction xs) auto

lemma checkWinConditions_eq:
  "checkWinConditions g =
     (if aliveMafia g = 0 then
        (g\<lparr>state := St_finished, currentPhase := Ph_finished\<rparr>,
         [(Room (gameId g), GameOver ''Villagers'' (mafiaGang_of g))])
      else if aliveTown g \<le> aliveMafia g then
        (g\<lparr>state := St_finished, currentPhase := Ph_finished\<rparr>,
         [(Room (gameId g), GameOver ''Mafia'' (mafiaGang_of g))])
      else (g, []))"
proof -
  have m: "filter (\<lambda>p. role p = Mafia \<or> role p = Godfather) (filter isAlive (players g))
           = filter (\<lambda>p. isAlive p \<and> (role p = Mafia \<or> role p = Godfather)) (players g)"
    by (simp add: conj_commute)
  have t: "filter (\<lambda>p. role p = Villager \<or> role p = Detective \<or> role p = Doctor)
             (filter isAlive (players g))
           = filter (\<lambda>p. isAlive p \<and> (role p = Villager \<or> role p = Detective \<or> role p = Doctor))
               (players g)"
    by (simp add: conj_commute)
  show ?thesis
    unfolding checkWinConditions_def Let_def m t aliveMafia_def aliveTown_def mafiaGang_of_def
    by simp
qed

text \<open>
  C4.  Win evaluation.  With no alive Mafia or Godfather the Villagers win; otherwise, with at
  least as many alive Mafia and Godfather players as alive Villager, Detective and Doctor
  players, the Mafia win; otherwise there is no verdict and the game is returned as it was,
  with nothing emitted.  On a verdict, state and phase become finished and one \<open>gameOver\<close>
  event goes to the room of the game, with the winner and the names of every Mafia and
  Godfather player, alive or dead.
\<close>

theorem checkWinConditions_verdict:
  "(aliveMafia g = 0 \<longrightarrow>
      checkWinConditions g =
        (g\<lparr>state := St_finished, currentPhase := Ph_finished\<rparr>,
         [(Room (gameId g), GameOver ''Villagers'' (mafiaGang_of g))]))
   \<and> (aliveMafia g \<noteq> 0 \<and> aliveTown g \<le> aliveMafia g \<longrightarrow>
      checkWinConditions g =
        (g\<lparr>state := St_finished, currentPhase := Ph_finished\<rparr>,
         [(Room (gameId g), GameOver ''Mafia'' (mafiaGang_of g))]))
   \<and> (aliveMafia g \<noteq> 0 \<and> aliveMafia g < aliveTown g \<longrightarrow> checkWinConditions g = (g, []))"
  by (simp add: checkWinConditions_eq)

theorem checkWinConditions_verdict_witness:
  "aliveMafia town_wins_game = 0
   \<and> checkWinConditions town_wins_game =
       (town_wins_game\<lparr>state := St_finished, currentPhase := Ph_finished\<rparr>,
        [(Room ''g'', GameOver ''Villagers'' [''ann'', ''bob''])])
   \<and> aliveMafia mafia_wins_game = 1 \<and> aliveTown mafia_wins_game = 1
   \<and> checkWinConditions mafia_wins_game =
       (mafia_wins_game\<lparr>state := St_finished, currentPhase := Ph_finished\<rparr>,
        [(Room ''g'', GameOver ''Mafia'' [''ann'', ''bob''])])
   \<and> aliveMafia undecided_game = 1 \<and> aliveTown undecided_game = 2
   \<and> checkWinConditions undecided_game = (undecided_game, [])"
proof -
  have a: "aliveMafia town_wins_game = 0"
    by (simp add: aliveMafia_def town_wins_game_def mk_game_def mk_player_def)
  have b: "aliveMafia mafia_wins_game = 1" "aliveTown mafia_wins_game = 1"
    by (simp_all add: aliveMafia_def aliveTown_def mafia_wins_game_def mk_game_def mk_player_def)
  have c: "aliveMafia undecided_game = 1" "aliveTown undecided_game = 2"
    by (simp_all add: aliveMafia_def aliveTown_def undecided_game_def mk_game_def mk_player_def)
  have ga: "mafiaGang_of town_wins_game = [''ann'', ''bob'']" "gameId town_wins_game = ''g''"
    by (simp_all add: mafiaGang_of_def town_wins_game_def mk_game_def mk_player_def)
  have gb: "mafiaGang_of mafia_wins_game = [''ann'', ''bob'']" "gameId mafia_wins_game = ''g''"
    by (simp_all add: mafiaGang_of_def mafia_wins_game_def mk_game_def mk_player_def)
  show ?thesis
    using checkWinConditions_verdict [of town_wins_game]
      checkWinConditions_verdict [of mafia_wins_game]
      checkWinConditions_verdict [of undecided_game]
    by (simp add: a b c ga gb)
qed

text \<open>
  C5.  Night resolution.  If \<open>mafiaTarget\<close> is set (truthy) and differs from \<open>doctorSave\<close>, the
  player of that name gets \<open>isAlive = false\<close> (no other player changes), the name is stored as
  \<open>lastKilled\<close> by the resolution itself, and it is the \<open>lastKilled\<close> that the phase change to
  day announces (entering the day then clears the field).  If there is no target, or the
  target is the saved player (a Doctor who saved themself included), no player changes.  In
  every case \<open>mafiaTarget\<close>, \<open>mafiaVotes\<close>, \<open>doctorSave\<close> and \<open>detectiveResult\<close> end cleared and
  the phase ends as day.
\<close>

theorem resolveNight_kill_or_spare:
  "(truthy (mafiaTarget g) \<and> mafiaTarget g \<noteq> doctorSave g \<and> mafiaTarget g = Some n
      \<and> find (\<lambda>p. name p = n) (players g) = Some p \<longrightarrow>
        players (fst (resolveNight g))
          = update_first (\<lambda>p. name p = n) (\<lambda>p. p\<lparr>isAlive := False\<rparr>) (players g)
        \<and> find (\<lambda>p. name p = n) (players (fst (resolveNight g))) = Some (p\<lparr>isAlive := False\<rparr>)
        \<and> lastKilled (fst (resolveNight_body g)) = Some n
        \<and> (Room (gameId g), PhaseChangedKilled Ph_day (Some n)) \<in> set (snd (resolveNight g)))
   \<and> (\<not> truthy (mafiaTarget g) \<or> mafiaTarget g = doctorSave g \<longrightarrow>
        players (fst (resolveNight g)) = players g
        \<and> lastKilled (fst (resolveNight_body g)) = lastKilled g)
   \<and> mafiaTarget (fst (resolveNight g)) = None
   \<and> mafiaVotes (fst (resolveNight g)) = []
   \<and> doctorSave (fst (resolveNight g)) = None
   \<and> detectiveResult (fst (resolveNight g)) = None
   \<and> currentPhase (fst (resolveNight g)) = Ph_day"
proof -
  have kill: "players (fst (resolveNight g))
                = update_first (\<lambda>p. name p = n) (\<lambda>p. p\<lparr>isAlive := False\<rparr>) (players g)
              \<and> find (\<lambda>p. name p = n) (players (fst (resolveNight g))) = Some (p\<lparr>isAlive := False\<rparr>)
              \<and> lastKilled (fst (resolveNight_body g)) = Some n
              \<and> (Room (gameId g), PhaseChangedKilled Ph_day (Some n)) \<in> set (snd (resolveNight g))"
    if h: "truthy (mafiaTarget g)" "mafiaTarget g \<noteq> doctorSave g" "mafiaTarget g = Some n"
      "find (\<lambda>p. name p = n) (players g) = Some p"
  proof -
    have eq: "(\<lambda>p. Some (name p) = mafiaTarget g) = (\<lambda>p. name p = n)"
      using h(3) by auto
    have lk: "lastKilled (fst (resolveNight_body g)) = Some n"
      using h by (simp add: resolveNight_body_lastKilled eq)
    have pl: "players (fst (resolveNight g))
                = update_first (\<lambda>p. name p = n) (\<lambda>p. p\<lparr>isAlive := False\<rparr>) (players g)"
      using h by (simp add: resolveNight_result resolveNight_body_players eq)
    have "name p = n" using h(4) by (auto simp: find_Some_iff)
    then have fd: "find (\<lambda>p. name p = n) (players (fst (resolveNight g))) = Some (p\<lparr>isAlive := False\<rparr>)"
      unfolding pl using h(4) by (intro update_first_find) simp_all
    have ev: "(Room (gameId g), PhaseChangedKilled Ph_day (Some n)) \<in> set (snd (resolveNight g))"
      by (simp add: resolveNight_unfold setPhase_day lk resolveNight_body_fields)
    from pl fd lk ev show ?thesis by blast
  qed
  have spare: "players (fst (resolveNight g)) = players g
               \<and> lastKilled (fst (resolveNight_body g)) = lastKilled g"
    if "\<not> truthy (mafiaTarget g) \<or> mafiaTarget g = doctorSave g"
    using that
    by (auto simp: resolveNight_result resolveNight_body_players resolveNight_body_lastKilled)
  have rest: "mafiaTarget (fst (resolveNight g)) = None \<and> mafiaVotes (fst (resolveNight g)) = []
     \<and> doctorSave (fst (resolveNight g)) = None \<and> detectiveResult (fst (resolveNight g)) = None
     \<and> currentPhase (fst (resolveNight g)) = Ph_day"
    by (simp add: resolveNight_result resolveNight_body_fields)
  from kill spare rest show ?thesis by blast
qed

theorem resolveNight_kill_or_spare_witness:
  "truthy (mafiaTarget night_kill_game)
   \<and> mafiaTarget night_kill_game \<noteq> doctorSave night_kill_game
   \<and> find (\<lambda>p. name p = ''eve'') (players (fst (resolveNight night_kill_game)))
       = Some (mk_player ''eve'' Villager False)
   \<and> lastKilled (fst (resolveNight_body night_kill_game)) = Some ''eve''
   \<and> mafiaTarget self_save_game = doctorSave self_save_game
   \<and> players (fst (resolveNight self_save_game)) = players self_save_game
   \<and> mafiaVotes (fst (resolveNight night_kill_game)) = []
   \<and> currentPhase (fst (resolveNight self_save_game)) = Ph_day"
  using resolveNight_kill_or_spare
          [of night_kill_game "''eve''" "mk_player ''eve'' Villager True"]
        resolveNight_kill_or_spare [of self_save_game]
  by (simp add: night_kill_game_def self_save_game_def mk_game_def mk_player_def truthy_def)

text \<open>
  C6.  Skipping.  A request for the detective phase with no alive Detective is carried out as
  the request for the doctor phase: with an alive Doctor the game ends in the doctor phase
  with no other field touched (\<open>detectiveResult\<close> in particular) and only the snapshot and the
  phase change of the doctor phase emitted.  A request for the doctor phase with no alive
  Doctor is carried out as the night resolution of the game as it is, so no save is
  written, the game ends in the day phase, and with no save stored a set target that names
  a player is killed.
\<close>

theorem setPhase_skips_extinct_roles:
  "(\<not> alive_with_role Detective g \<longrightarrow> setPhase g Ph_nightDetective = setPhase g Ph_nightDoctor)
   \<and> (\<not> alive_with_role Detective g \<and> alive_with_role Doctor g \<longrightarrow>
        setPhase g Ph_nightDetective =
          (g\<lparr>currentPhase := Ph_nightDoctor\<rparr>,
           [(Room (gameId g), GameUpdated (g\<lparr>currentPhase := Ph_nightDoctor\<rparr>)),
            (Room (gameId g), PhaseChanged Ph_nightDoctor)]))
   \<and> (\<not> alive_with_role Doctor g \<longrightarrow>
        setPhase g Ph_nightDoctor = resolveNight (g\<lparr>currentPhase := Ph_nightDoctor\<rparr>)
        \<and> currentPhase (fst (setPhase g Ph_nightDoctor)) = Ph_day
        \<and> (doctorSave g = None \<and> truthy (mafiaTarget g) \<and> mafiaTarget g = Some n
              \<and> find (\<lambda>p. name p = n) (players g) = Some p \<longrightarrow>
            find (\<lambda>p. name p = n) (players (fst (setPhase g Ph_nightDoctor)))
              = Some (p\<lparr>isAlive := False\<rparr>)))"
proof -
  have doc: "find (\<lambda>p. name p = n) (players (fst (resolveNight (g\<lparr>currentPhase := Ph_nightDoctor\<rparr>))))
               = Some (p\<lparr>isAlive := False\<rparr>)"
    if h: "doctorSave g = None" "truthy (mafiaTarget g)" "mafiaTarget g = Some n"
       "find (\<lambda>p. name p = n) (players g) = Some p"
  proof -
    have eq: "(\<lambda>p. Some (name p) = mafiaTarget g) = (\<lambda>p. name p = n)"
      using h(3) by auto
    have "name p = n" using h(4) by (auto simp: find_Some_iff)
    then show ?thesis
      using h by (simp add: resolveNight_result resolveNight_body_players eq update_first_find)
  qed
  have a: "\<not> alive_with_role Detective g \<longrightarrow> setPhase g Ph_nightDetective = setPhase g Ph_nightDoctor"
    by (simp add: setPhase_nightDetective)
  have b: "\<not> alive_with_role Detective g \<and> alive_with_role Doctor g \<longrightarrow>
        setPhase g Ph_nightDetective =
          (g\<lparr>currentPhase := Ph_nightDoctor\<rparr>,
           [(Room (gameId g), GameUpdated (g\<lparr>currentPhase := Ph_nightDoctor\<rparr>)),
            (Room (gameId g), PhaseChanged Ph_nightDoctor)])"
    by (simp add: setPhase_nightDetective setPhase_nightDoctor)
  have c: "setPhase g Ph_nightDoctor = resolveNight (g\<lparr>currentPhase := Ph_nightDoctor\<rparr>)"
    if "\<not> alive_with_role Doctor g"
    using that by (simp add: setPhase_nightDoctor)
  have d: "currentPhase (fst (resolveNight (g\<lparr>currentPhase := Ph_nightDoctor\<rparr>))) = Ph_day"
    by (simp add: resolveNight_result)
  show ?thesis
    by (auto simp: setPhase_nightDetective setPhase_nightDoctor d doc)
qed

theorem setPhase_skips_extinct_roles_witness:
  "\<not> alive_with_role Detective no_detective_game \<and> alive_with_role Doctor no_detective_game
   \<and> fst (setPhase no_detective_game Ph_nightDetective)
       = no_detective_game\<lparr>currentPhase := Ph_nightDoctor\<rparr>
   \<and> \<not> alive_with_role Detective no_detective_no_doctor_game
   \<and> \<not> alive_with_role Doctor no_detective_no_doctor_game
   \<and> currentPhase (fst (setPhase no_detective_no_doctor_game Ph_nightDetective)) = Ph_day
   \<and> find (\<lambda>p. name p = ''eve'')
         (players (fst (setPhase no_detective_no_doctor_game Ph_nightDetective)))
       = Some (mk_player ''eve'' Villager False)"
proof -
  have a: "\<not> alive_with_role Detective no_detective_game" "alive_with_role Doctor no_detective_game"
    by (simp_all add: alive_with_role_def no_detective_game_def mk_game_def mk_player_def)
  have b: "\<not> alive_with_role Detective no_detective_no_doctor_game"
    "\<not> alive_with_role Doctor no_detective_no_doctor_game"
    by (simp_all add: alive_with_role_def no_detective_no_doctor_game_def mk_game_def mk_player_def)
  have c: "doctorSave no_detective_no_doctor_game = None"
    "truthy (mafiaTarget no_detective_no_doctor_game)"
    "mafiaTarget no_detective_no_doctor_game = Some ''eve''"
    "find (\<lambda>p. name p = ''eve'') (players no_detective_no_doctor_game)
       = Some (mk_player ''eve'' Villager True)"
    by (simp_all add: no_detective_no_doctor_game_def mk_game_def mk_player_def truthy_def)
  have d: "(mk_player ''eve'' Villager True)\<lparr>isAlive := False\<rparr> = mk_player ''eve'' Villager False"
    by (simp add: mk_player_def)
  note t1 = setPhase_skips_extinct_roles [of no_detective_game]
  note t2 = setPhase_skips_extinct_roles
              [of no_detective_no_doctor_game "''eve''" "mk_player ''eve'' Villager True"]
  from t1 a have "setPhase no_detective_game Ph_nightDetective =
          (no_detective_game\<lparr>currentPhase := Ph_nightDoctor\<rparr>,
           [(Room (gameId no_detective_game),
             GameUpdated (no_detective_game\<lparr>currentPhase := Ph_nightDoctor\<rparr>)),
            (Room (gameId no_detective_game), PhaseChanged Ph_nightDoctor)])"
    by blast
  then have r1: "fst (setPhase no_detective_game Ph_nightDetective)
                   = no_detective_game\<lparr>currentPhase := Ph_nightDoctor\<rparr>"
    by (simp only: fst_conv)
  from t2 b have r2: "setPhase no_detective_no_doctor_game Ph_nightDetective
                        = setPhase no_detective_no_doctor_game Ph_nightDoctor"
    by blast
  from t2 b have r3: "currentPhase (fst (setPhase no_detective_no_doctor_game Ph_nightDoctor)) = Ph_day"
    by blast
  from t2 b c have r4: "find (\<lambda>p. name p = ''eve'')
                          (players (fst (setPhase no_detective_no_doctor_game Ph_nightDoctor)))
                        = Some ((mk_player ''eve'' Villager True)\<lparr>isAlive := False\<rparr>)"
    by blast
  from a b r1 r2 r3 r4 show ?thesis by (simp only: d simp_thms)
qed

section \<open>Rejected actions\<close>

lemma dayVote_finish_fst: "\<exists>g'. fst (dayVote_finish g ev) = Json g'"
  by (simp add: dayVote_finish_def Let_def split_beta)

lemma mafiaVote_rejects:
  "state g \<noteq> St_inProgress \<or> currentPhase g \<noteq> Ph_nightMafia
   \<or> find (\<lambda>p. (role p = Mafia \<or> role p = Godfather) \<and> name p = v \<and> isAlive p) (players g) = None
   \<or> Map_has (mafiaVotes g) v
   \<or> find (\<lambda>p. name p = t \<and> isAlive p) (players g) = None
   \<Longrightarrow> \<exists>msg. mafiaVote (Some g) v t = (Status400 msg, Some g, [])"
  by (auto simp: mafiaVote_def split: option.splits)

lemma investigate_rejects:
  "state g \<noteq> St_inProgress \<or> currentPhase g \<noteq> Ph_nightDetective
   \<or> find (\<lambda>p. name p = v \<and> role p = Detective \<and> isAlive p) (players g) = None
   \<or> truthy (detectiveResult g)
   \<or> find (\<lambda>p. name p = t \<and> isAlive p) (players g) = None
   \<Longrightarrow> \<exists>msg. investigate (Some g) v t = (Status400 msg, Some g, [])"
  by (auto simp: investigate_def split: option.splits)

lemma doctorSave_rejects:
  "state g \<noteq> St_inProgress \<or> currentPhase g \<noteq> Ph_nightDoctor
   \<or> find (\<lambda>p. name p = v \<and> role p = Doctor \<and> isAlive p) (players g) = None
   \<or> find (\<lambda>p. name p = t \<and> isAlive p) (players g) = None
   \<Longrightarrow> \<exists>msg. doctorSave_handler (Some g) v t = (Status400 msg, Some g, [])"
  by (auto simp: doctorSave_handler_def split: option.splits)

lemma dayVote_rejects:
  "state g \<noteq> St_inProgress \<or> currentPhase g \<noteq> Ph_day
   \<or> find (\<lambda>p. name p = v \<and> isAlive p) (players g) = None
   \<or> Map_has (votes g) v
   \<or> find (\<lambda>p. name p = t \<and> isAlive p) (players g) = None
   \<Longrightarrow> \<exists>msg. dayVote (Some g) v t = (Status400 msg, Some g, [])"
  by (auto simp: dayVote_def split: option.splits)

lemma mafiaVote_accepts:
  assumes "state g = St_inProgress" "currentPhase g = Ph_nightMafia"
    "find (\<lambda>p. (role p = Mafia \<or> role p = Godfather) \<and> name p = v \<and> isAlive p) (players g) = Some x"
    "\<not> Map_has (mafiaVotes g) v"
    "find (\<lambda>p. name p = t \<and> isAlive p) (players g) = Some y"
  shows "(\<exists>g'. fst (mafiaVote (Some g) v t) = Json g') \<or> fst (mafiaVote (Some g) v t) = Status500"
  using assms by (simp add: mafiaVote_def Map_set_def Let_def split_beta)

lemma investigate_accepts:
  assumes "state g = St_inProgress" "currentPhase g = Ph_nightDetective"
    "find (\<lambda>p. name p = v \<and> role p = Detective \<and> isAlive p) (players g) = Some x"
    "\<not> truthy (detectiveResult g)"
    "find (\<lambda>p. name p = t \<and> isAlive p) (players g) = Some y"
  shows "\<exists>g'. fst (investigate (Some g) v t) = Json g'"
  using assms by (simp add: investigate_def Let_def split_beta)

lemma doctorSave_accepts:
  assumes "state g = St_inProgress" "currentPhase g = Ph_nightDoctor"
    "find (\<lambda>p. name p = v \<and> role p = Doctor \<and> isAlive p) (players g) = Some x"
    "find (\<lambda>p. name p = t \<and> isAlive p) (players g) = Some y"
  shows "\<exists>g'. fst (doctorSave_handler (Some g) v t) = Json g'"
  using assms by (simp add: doctorSave_handler_def Let_def split_beta)

lemma dayVote_accepts:
  assumes "state g = St_inProgress" "currentPhase g = Ph_day"
    "find (\<lambda>p. name p = v \<and> isAlive p) (players g) = Some x"
    "\<not> Map_has (votes g) v"
    "find (\<lambda>p. name p = t \<and> isAlive p) (players g) = Some y"
  shows "(\<exists>g'. fst (dayVote (Some g) v t) = Json g') \<or> fst (dayVote (Some g) v t) = Status500"
  using assms dayVote_finish_fst
  apply (simp add: dayVote_def Map_set_def Let_def split_beta)
  apply (simp split: option.split)
  done

lemma mafiaVote_rejected:
  assumes "fst (mafiaVote found v t) = Status400 msg"
  shows "mafiaVote found v t = (Status400 msg, found, [])"
proof (cases found)
  case None
  with assms show ?thesis by (simp add: mafiaVote_def)
next
  case (Some g)
  show ?thesis
  proof (cases "state g \<noteq> St_inProgress \<or> currentPhase g \<noteq> Ph_nightMafia
   \<or> find (\<lambda>p. (role p = Mafia \<or> role p = Godfather) \<and> name p = v \<and> isAlive p) (players g) = None
   \<or> Map_has (mafiaVotes g) v
   \<or> find (\<lambda>p. name p = t \<and> isAlive p) (players g) = None")
    case True
    from mafiaVote_rejects [OF True] assms Some show ?thesis by auto
  next
    case False
    with mafiaVote_accepts [where g = g and v = v and t = t] assms Some show ?thesis by auto
  qed
qed

lemma investigate_rejected:
  assumes "fst (investigate found v t) = Status400 msg"
  shows "investigate found v t = (Status400 msg, found, [])"
proof (cases found)
  case None
  with assms show ?thesis by (simp add: investigate_def)
next
  case (Some g)
  show ?thesis
  proof (cases "state g \<noteq> St_inProgress \<or> currentPhase g \<noteq> Ph_nightDetective
   \<or> find (\<lambda>p. name p = v \<and> role p = Detective \<and> isAlive p) (players g) = None
   \<or> truthy (detectiveResult g)
   \<or> find (\<lambda>p. name p = t \<and> isAlive p) (players g) = None")
    case True
    from investigate_rejects [OF True] assms Some show ?thesis by auto
  next
    case False
    with investigate_accepts [where g = g and v = v and t = t] assms Some show ?thesis by auto
  qed
qed

lemma doctorSave_rejected:
  assumes "fst (doctorSave_handler found v t) = Status400 msg"
  shows "doctorSave_handler found v t = (Status400 msg, found, [])"
proof (cases found)
  case None
  with assms show ?thesis by (simp add: doctorSave_handler_def)
next
  case (Some g)
  show ?thesis
  proof (cases "state g \<noteq> St_inProgress \<or> currentPhase g \<noteq> Ph_nightDoctor
   \<or> find (\<lambda>p. name p = v \<and> role p = Doctor \<and> isAlive p) (players g) = None
   \<or> find (\<lambda>p. name p = t \<and> isAlive p) (players g) = None")
    case True
    from doctorSave_rejects [OF True] assms Some show ?thesis by auto
  next
    case False
    with doctorSave_accepts [where g = g and v = v and t = t] assms Some show ?thesis by auto
  qed
qed

lemma dayVote_rejected:
  assumes "fst (dayVote found v t) = Status400 msg"
  shows "dayVote found v t = (Status400 msg, found, [])"
proof (cases found)
  case None
  with assms show ?thesis by (simp add: dayVote_def)
next
  case (Some g)
  show ?thesis
  proof (cases "state g \<noteq> St_inProgress \<or> currentPhase g \<noteq> Ph_day
   \<or> find (\<lambda>p. name p = v \<and> isAlive p) (players g) = None
   \<or> Map_has (votes g) v
   \<or> find (\<lambda>p. name p = t \<and> isAlive p) (players g) = None")
    case True
    from dayVote_rejects [OF True] assms Some show ?thesis by auto
  next
    case False
    with dayVote_accepts [where g = g and v = v and t = t] assms Some show ?thesis by auto
  qed
qed

text \<open>
  C8.  Rejections.  Each of the four action handlers answers a request in the wrong state or
  phase, from an actor that is not an alive player of the required role, for a target that
  is not an alive player, from a voter whose vote is recorded already, or for a second
  investigation, with status 400; and whenever a handler answers with status 400, for
  whatever reason, the stored game is the one it was given and nothing was emitted.
\<close>

theorem rejected_action_changes_nothing:
  "(state g \<noteq> St_inProgress \<or> currentPhase g \<noteq> Ph_nightMafia
      \<or> find (\<lambda>p. (role p = Mafia \<or> role p = Godfather) \<and> name p = v \<and> isAlive p) (players g) = None
      \<or> Map_has (mafiaVotes g) v
      \<or> find (\<lambda>p. name p = t \<and> isAlive p) (players g) = None
      \<longrightarrow> (\<exists>msg. mafiaVote (Some g) v t = (Status400 msg, Some g, [])))
   \<and> (state g \<noteq> St_inProgress \<or> currentPhase g \<noteq> Ph_nightDetective
      \<or> find (\<lambda>p. name p = v \<and> role p = Detective \<and> isAlive p) (players g) = None
      \<or> truthy (detectiveResult g)
      \<or> find (\<lambda>p. name p = t \<and> isAlive p) (players g) = None
      \<longrightarrow> (\<exists>msg. investigate (Some g) v t = (Status400 msg, Some g, [])))
   \<and> (state g \<noteq> St_inProgress \<or> currentPhase g \<noteq> Ph_nightDoctor
      \<or> find (\<lambda>p. name p = v \<and> role p = Doctor \<and> isAlive p) (players g) = None
      \<or> find (\<lambda>p. name p = t \<and> isAlive p) (players g) = None
      \<longrightarrow> (\<exists>msg. doctorSave_handler (Some g) v t = (Status400 msg, Some g, [])))
   \<and> (state g \<noteq> St_inProgress \<or> currentPhase g \<noteq> Ph_day
      \<or> find (\<lambda>p. name p = v \<and> isAlive p) (players g) = None
      \<or> Map_has (votes g) v
      \<or> find (\<lambda>p. name p = t \<and> isAlive p) (players g) = None
      \<longrightarrow> (\<exists>msg. dayVote (Some g) v t = (Status400 msg, Some g, [])))
   \<and> (\<forall>h \<in> {mafiaVote, investigate, doctorSave_handler, dayVote}.
        \<forall>msg. fst (h found v t) = Status400 msg \<longrightarrow> h found v t = (Status400 msg, found, []))"
  using mafiaVote_rejects [of g v t] investigate_rejects [of g v t] doctorSave_rejects [of g v t]
    dayVote_rejects [of g v t] mafiaVote_rejected [of found v t] investigate_rejected [of found v t]
    doctorSave_rejected [of found v t] dayVote_rejected [of found v t]
  by blast

theorem rejected_action_changes_nothing_witness:
  "Map_has (mafiaVotes night_mafia_game) ''ann''
   \<and> (\<exists>msg. mafiaVote (Some night_mafia_game) ''ann'' ''eve''
              = (Status400 msg, Some night_mafia_game, []))
   \<and> find (\<lambda>p. name p = ''fay'' \<and> isAlive p) (players night_mafia_game) = None
   \<and> (\<exists>msg. mafiaVote (Some night_mafia_game) ''bob'' ''fay''
              = (Status400 msg, Some night_mafia_game, []))
   \<and> currentPhase night_mafia_game \<noteq> Ph_nightDetective
   \<and> (\<exists>msg. investigate (Some night_mafia_game) ''cy'' ''ann''
              = (Status400 msg, Some night_mafia_game, []))
   \<and> currentPhase night_mafia_game \<noteq> Ph_nightDoctor
   \<and> (\<exists>msg. doctorSave_handler (Some night_mafia_game) ''dee'' ''eve''
              = (Status400 msg, Some night_mafia_game, []))
   \<and> currentPhase night_mafia_game \<noteq> Ph_day
   \<and> (\<exists>msg. dayVote (Some night_mafia_game) ''eve'' ''ann''
              = (Status400 msg, Some night_mafia_game, []))"
proof -
  have a: "Map_has (mafiaVotes night_mafia_game) ''ann''"
    by (simp add: Map_has_def night_mafia_game_def mk_game_def)
  have b: "find (\<lambda>p. name p = ''fay'' \<and> isAlive p) (players night_mafia_game) = None"
    by (simp add: night_mafia_game_def mk_game_def mk_player_def)
  have c: "currentPhase night_mafia_game = Ph_nightMafia"
    by (simp add: night_mafia_game_def mk_game_def)
  note t1 = rejected_action_changes_nothing
              [where g = night_mafia_game and v = "''ann''" and t = "''eve''"]
  note t2 = rejected_action_changes_nothing
              [where g = night_mafia_game and v = "''bob''" and t = "''fay''"]
  note t3 = rejected_action_changes_nothing
              [where g = night_mafia_game and v = "''cy''" and t = "''ann''"]
  note t4 = rejected_action_changes_nothing
              [where g = night_mafia_game and v = "''dee''" and t = "''eve''"]
  note t5 = rejected_action_changes_nothing
              [where g = night_mafia_game and v = "''eve''" and t = "''ann''"]
  from t1 a have r1: "\<exists>msg. mafiaVote (Some night_mafia_game) ''ann'' ''eve''
              = (Status400 msg, Some night_mafia_game, [])" by blast
  from t2 b have r2: "\<exists>msg. mafiaVote (Some night_mafia_game) ''bob'' ''fay''
              = (Status400 msg, Some night_mafia_game, [])" by blast
  from t3 c have r3: "\<exists>msg. investigate (Some night_mafia_game) ''cy'' ''ann''
              = (Status400 msg, Some night_mafia_game, [])" by simp
  from t4 c have r4: "\<exists>msg. doctorSave_handler (Some night_mafia_game) ''dee'' ''eve''
              = (Status400 msg, Some night_mafia_game, [])" by simp
  from t5 c have r5: "\<exists>msg. dayVote (Some night_mafia_game) ''eve'' ''ann''
              = (Status400 msg, Some night_mafia_game, [])" by simp
  from a b c r1 r2 r3 r4 r5 show ?thesis by simp
qed

section \<open>The investigation\<close>

lemma investigate_valid:
  assumes "state g = St_inProgress" "currentPhase g = Ph_nightDetective"
    "find (\<lambda>p. name p = i \<and> role p = Detective \<and> isAlive p) (players g) = Some det"
    "\<not> truthy (detectiveResult g)"
    "find (\<lambda>p. name p = t \<and> isAlive p) (players g) = Some tgt"
  shows "investigate (Some g) i t =
     (let r = (if role tgt = Mafia then ''+ve'' else ''-ve'');
          g1 = g\<lparr>detectiveResult := Some r\<rparr>
      in (Json (fst (setPhase g1 Ph_nightDoctor)), Some (fst (setPhase g1 Ph_nightDoctor)),
          (Socket (socketId det), InvestigationResult t r) # snd (setPhase g1 Ph_nightDoctor)))"
  using assms by (simp add: investigate_def Let_def split_beta)

lemma phase_event_not_result: "phase_event e \<Longrightarrow> \<not> is_InvestigationResult e"
  by (cases e) simp_all

lemma phase_event_not_GameOver: "phase_event e \<Longrightarrow> \<not> is_GameOver e"
  by (cases e) simp_all

text \<open>
  What a valid investigation does (the game in progress in the detective phase, the
  investigator an alive Detective, no result stored yet, the target an alive player): the
  result is \<open>+ve\<close> for a target whose role is Mafia and \<open>-ve\<close> for every other role,
  Godfather included.  The first emission is the \<open>investigationResult\<close> event with the
  target and the result, addressed to the investigator's socket; every later emission of
  the request goes to the room and none of them is an \<open>investigationResult\<close> event.
\<close>

lemma investigate_result_and_private_event:
  assumes "state g = St_inProgress" "currentPhase g = Ph_nightDetective"
    "find (\<lambda>p. name p = i \<and> role p = Detective \<and> isAlive p) (players g) = Some det"
    "\<not> truthy (detectiveResult g)"
    "find (\<lambda>p. name p = t \<and> isAlive p) (players g) = Some tgt"
  shows "\<exists>g' r ev. investigate (Some g) i t
            = (Json g', Some g', (Socket (socketId det), InvestigationResult t r) # ev)
          \<and> (role tgt = Mafia \<longrightarrow> r = ''+ve'')
          \<and> (role tgt \<noteq> Mafia \<longrightarrow> r = ''-ve'')
          \<and> (role tgt = Godfather \<longrightarrow> r = ''-ve'')
          \<and> (\<forall>e \<in> set ev. fst e = Room (gameId g) \<and> \<not> is_InvestigationResult (snd e))"
proof -
  define r where "r = (if role tgt = Mafia then ''+ve'' else ''-ve'')"
  define g1 where "g1 = g\<lparr>detectiveResult := Some r\<rparr>"
  have eq: "investigate (Some g) i t =
     (Json (fst (setPhase g1 Ph_nightDoctor)), Some (fst (setPhase g1 Ph_nightDoctor)),
      (Socket (socketId det), InvestigationResult t r) # snd (setPhase g1 Ph_nightDoctor))"
    using investigate_valid [OF assms] by (simp add: Let_def r_def g1_def)
  have ev: "\<forall>e \<in> set (snd (setPhase g1 Ph_nightDoctor)).
              fst e = Room (gameId g) \<and> \<not> is_InvestigationResult (snd e)"
    using setPhase_events [of _ g1 Ph_nightDoctor] phase_event_not_result
    by (auto simp: g1_def)
  have "(role tgt = Mafia \<longrightarrow> r = ''+ve'') \<and> (role tgt \<noteq> Mafia \<longrightarrow> r = ''-ve'')
        \<and> (role tgt = Godfather \<longrightarrow> r = ''-ve'')"
    by (simp add: r_def)
  with eq ev show ?thesis by blast
qed

text \<open>
  With an alive Doctor the same request stores the result in \<open>detectiveResult\<close>, enters the
  doctor phase, and sends the snapshot of that game, result included, to the whole room.
\<close>

lemma investigate_snapshot_carries_result:
  assumes "state g = St_inProgress" "currentPhase g = Ph_nightDetective"
    "find (\<lambda>p. name p = i \<and> role p = Detective \<and> isAlive p) (players g) = Some det"
    "\<not> truthy (detectiveResult g)"
    "find (\<lambda>p. name p = t \<and> isAlive p) (players g) = Some tgt"
    "alive_with_role Doctor g"
  shows "investigate (Some g) i t =
     (let r = (if role tgt = Mafia then ''+ve'' else ''-ve'');
          g' = g\<lparr>detectiveResult := Some r, currentPhase := Ph_nightDoctor\<rparr>
      in (Json g', Some g',
          [(Socket (socketId det), InvestigationResult t r),
           (Room (gameId g), GameUpdated g'),
           (Room (gameId g), PhaseChanged Ph_nightDoctor)]))"
proof -
  have "alive_with_role Doctor (g\<lparr>detectiveResult := x\<rparr>)" for x
    using assms(6) by (simp add: alive_with_role_def)
  then show ?thesis
    by (simp add: investigate_valid [OF assms(1-5)] Let_def setPhase_nightDoctor)
qed

text \<open>
  C7.  The investigation of a Mafia player at a game with an alive Doctor.  The Detective
  \<open>cy\<close> investigates \<open>ann\<close>: the result \<open>+ve\<close> goes to the socket of \<open>cy\<close> in the
  \<open>investigationResult\<close> event, and it is also stored in \<open>detectiveResult\<close> of the game whose
  snapshot the next emission sends to the whole room.  The result is not delivered to the
  Detective only.
\<close>

theorem investigate_broadcasts_result:
  "investigate (Some investigation_game) ''cy'' ''ann'' =
     (Json (investigation_game\<lparr>detectiveResult := Some ''+ve'', currentPhase := Ph_nightDoctor\<rparr>),
      Some (investigation_game\<lparr>detectiveResult := Some ''+ve'', currentPhase := Ph_nightDoctor\<rparr>),
      [(Socket (Some ''s-cy''), InvestigationResult ''ann'' ''+ve''),
       (Room ''g'',
        GameUpdated (investigation_game\<lparr>detectiveResult := Some ''+ve'',
                                        currentPhase := Ph_nightDoctor\<rparr>)),
       (Room ''g'', PhaseChanged Ph_nightDoctor)])"
  by (simp add: investigate_def investigation_game_def mk_game_def mk_player_def truthy_def
        setPhase_nightDoctor alive_with_role_def Let_def)

theorem investigate_broadcasts_result_witness:
  "state investigation_game = St_inProgress
   \<and> currentPhase investigation_game = Ph_nightDetective
   \<and> detectiveResult investigation_game = None
   \<and> alive_with_role Doctor investigation_game
   \<and> snd (snd (investigate (Some investigation_game) ''cy'' ''ann'')) ! 1
       = (Room ''g'',
          GameUpdated (investigation_game\<lparr>detectiveResult := Some ''+ve'',
                                          currentPhase := Ph_nightDoctor\<rparr>))"
proof -
  have "state investigation_game = St_inProgress"
    "currentPhase investigation_game = Ph_nightDetective"
    "detectiveResult investigation_game = None"
    "alive_with_role Doctor investigation_game"
    by (simp_all add: investigation_game_def mk_game_def mk_player_def alive_with_role_def)
  then show ?thesis
    by (simp add: investigate_broadcasts_result)
qed

section \<open>The handlers, unfolded; the night handlers keep the state\<close>

lemma aliveMafia_filter:
  "length (filter (\<lambda>p. (role p = Mafia \<or> role p = Godfather) \<and> isAlive p) (players g)) = aliveMafia g"
  by (simp add: aliveMafia_def conj_commute)

lemma aliveMafia_mafiaVotes [simp]: "aliveMafia (g\<lparr>mafiaVotes := x\<rparr>) = aliveMafia g"
  by (simp add: aliveMafia_def)

lemma mafiaVote_valid:
  assumes "state g = St_inProgress" "currentPhase g = Ph_nightMafia"
    "find (\<lambda>p. (role p = Mafia \<or> role p = Godfather) \<and> name p = v \<and> isAlive p) (players g) = Some x"
    "\<not> Map_has (mafiaVotes g) v"
    "find (\<lambda>p. name p = t \<and> isAlive p) (players g) = Some y"
    "\<not> Map_key_refused v"
  shows "mafiaVote (Some g) v t =
     (let g1 = g\<lparr>mafiaVotes := put v t (mafiaVotes g)\<rparr>;
          ev1 = map (\<lambda>sid. (Socket sid, MafiaVoteCast v t))
                  (map socketId (filter (\<lambda>p. (role p = Mafia \<or> role p = Godfather) \<and> isAlive p)
                                   (players g)));
          g3 = fst (setPhase (g1\<lparr>mafiaTarget := mafiaVote_resolve g1\<rparr>) Ph_nightDetective);
          ev2 = snd (setPhase (g1\<lparr>mafiaTarget := mafiaVote_resolve g1\<rparr>) Ph_nightDetective)
      in if length (mafiaVotes g1) = aliveMafia g then (Json g3, Some g3, ev1 @ ev2)
         else (Json g1, Some g1, ev1))"
  using assms by (simp add: mafiaVote_def Map_set_def Let_def split_beta aliveMafia_filter)

lemma mafiaVote_refused:
  assumes "state g = St_inProgress" "currentPhase g = Ph_nightMafia"
    "find (\<lambda>p. (role p = Mafia \<or> role p = Godfather) \<and> name p = v \<and> isAlive p) (players g) = Some x"
    "\<not> Map_has (mafiaVotes g) v"
    "find (\<lambda>p. name p = t \<and> isAlive p) (players g) = Some y"
    "Map_key_refused v"
  shows "mafiaVote (Some g) v t = (Status500, Some g, [])"
  using assms by (simp add: mafiaVote_def Map_set_def)

lemma doctorSave_valid:
  assumes "state g = St_inProgress" "currentPhase g = Ph_nightDoctor"
    "find (\<lambda>p. name p = v \<and> role p = Doctor \<and> isAlive p) (players g) = Some x"
    "find (\<lambda>p. name p = t \<and> isAlive p) (players g) = Some y"
  shows "doctorSave_handler (Some g) v t =
     (Json (fst (resolveNight (g\<lparr>doctorSave := Some t\<rparr>))),
      Some (fst (resolveNight (g\<lparr>doctorSave := Some t\<rparr>))),
      snd (resolveNight (g\<lparr>doctorSave := Some t\<rparr>)))"
  using assms by (simp add: doctorSave_handler_def Let_def split_beta)

lemma setPhase_no_GameOver: "e \<in> set (snd (setPhase g ph)) \<Longrightarrow> \<not> is_GameOver (snd e)"
  using setPhase_events [of e g ph] phase_event_not_GameOver by blast

lemma resolveNight_no_GameOver: "e \<in> set (snd (resolveNight g)) \<Longrightarrow> \<not> is_GameOver (snd e)"
  using resolveNight_events [of e g] phase_event_not_GameOver by blast

lemma resolveNight_state: "state (fst (resolveNight g)) = state g"
  by (simp add: resolveNight_result resolveNight_body_fields)

lemma mafiaVote_keeps_state:
  assumes "mafiaVote (Some g) v t = (r, Some g', ev)"
  shows "state g' = state g \<and> (\<forall>e \<in> set ev. \<not> is_GameOver (snd e))"
proof (cases "state g \<noteq> St_inProgress \<or> currentPhase g \<noteq> Ph_nightMafia
   \<or> find (\<lambda>p. (role p = Mafia \<or> role p = Godfather) \<and> name p = v \<and> isAlive p) (players g) = None
   \<or> Map_has (mafiaVotes g) v
   \<or> find (\<lambda>p. name p = t \<and> isAlive p) (players g) = None")
  case True
  from mafiaVote_rejects [OF True] assms show ?thesis by auto
next
  case False
  then obtain x y where
    "state g = St_inProgress" "currentPhase g = Ph_nightMafia"
    "find (\<lambda>p. (role p = Mafia \<or> role p = Godfather) \<and> name p = v \<and> isAlive p) (players g) = Some x"
    "\<not> Map_has (mafiaVotes g) v"
    "find (\<lambda>p. name p = t \<and> isAlive p) (players g) = Some y"
    by auto
  note ok = this
  show ?thesis
  proof (cases "Map_key_refused v")
    case True
    from mafiaVote_refused [OF ok True] assms show ?thesis by simp
  next
    case False
    from mafiaVote_valid [OF ok False] assms show ?thesis
      by (auto simp: Let_def setPhase_state split: if_splits dest: setPhase_no_GameOver)
  qed
qed

lemma investigate_keeps_state:
  assumes "investigate (Some g) v t = (r, Some g', ev)"
  shows "state g' = state g \<and> (\<forall>e \<in> set ev. \<not> is_GameOver (snd e))"
proof (cases "state g \<noteq> St_inProgress \<or> currentPhase g \<noteq> Ph_nightDetective
   \<or> find (\<lambda>p. name p = v \<and> role p = Detective \<and> isAlive p) (players g) = None
   \<or> truthy (detectiveResult g)
   \<or> find (\<lambda>p. name p = t \<and> isAlive p) (players g) = None")
  case True
  from investigate_rejects [OF True] assms show ?thesis by auto
next
  case False
  then obtain x y where
    "state g = St_inProgress" "currentPhase g = Ph_nightDetective"
    "find (\<lambda>p. name p = v \<and> role p = Detective \<and> isAlive p) (players g) = Some x"
    "\<not> truthy (detectiveResult g)"
    "find (\<lambda>p. name p = t \<and> isAlive p) (players g) = Some y"
    by auto
  from investigate_valid [OF this] assms show ?thesis
    by (auto simp: Let_def setPhase_state dest: setPhase_no_GameOver)
qed

lemma doctorSave_keeps_state:
  assumes "doctorSave_handler (Some g) v t = (r, Some g', ev)"
  shows "state g' = state g \<and> (\<forall>e \<in> set ev. \<not> is_GameOver (snd e))"
proof (cases "state g \<noteq> St_inProgress \<or> currentPhase g \<noteq> Ph_nightDoctor
   \<or> find (\<lambda>p. name p = v \<and> role p = Doctor \<and> isAlive p) (players g) = None
   \<or> find (\<lambda>p. name p = t \<and> isAlive p) (players g) = None")
  case True
  from doctorSave_rejects [OF True] assms show ?thesis by auto
next
  case False
  then obtain x y where
    "state g = St_inProgress" "currentPhase g = Ph_nightDoctor"
    "find (\<lambda>p. name p = v \<and> role p = Doctor \<and> isAlive p) (players g) = Some x"
    "find (\<lambda>p. name p = t \<and> isAlive p) (players g) = Some y"
    by auto
  from doctorSave_valid [OF this] assms show ?thesis
    by (auto simp: resolveNight_state dest: resolveNight_no_GameOver)
qed

lemma aliveMafia_votes [simp]: "aliveMafia (g\<lparr>votes := x\<rparr>) = aliveMafia g"
  by (simp add: aliveMafia_def)

lemma aliveTown_votes [simp]: "aliveTown (g\<lparr>votes := x\<rparr>) = aliveTown g"
  by (simp add: aliveTown_def)

lemma mafiaGang_of_votes [simp]: "mafiaGang_of (g\<lparr>votes := x\<rparr>) = mafiaGang_of g"
  by (simp add: mafiaGang_of_def)

lemma dayVote_finish_eq:
  assumes "state g = St_inProgress"
  shows "dayVote_finish g ev =
     (if aliveMafia g = 0 \<or> aliveTown g \<le> aliveMafia g then
        (Json (g\<lparr>votes := [], state := St_finished, currentPhase := Ph_finished\<rparr>),
         Some (g\<lparr>votes := [], state := St_finished, currentPhase := Ph_finished\<rparr>),
         ev @ [(Room (gameId g),
                GameOver (if aliveMafia g = 0 then ''Villagers'' else ''Mafia'') (mafiaGang_of g))])
      else
        (Json (g\<lparr>votes := [], currentPhase := Ph_nightMafia\<rparr>),
         Some (g\<lparr>votes := [], currentPhase := Ph_nightMafia\<rparr>),
         ev @ [(Room (gameId g), PhaseChanged Ph_nightMafia),
               (Room (gameId g), GameUpdated (g\<lparr>votes := [], currentPhase := Ph_nightMafia\<rparr>))]))"
  using assms
  by (simp add: dayVote_finish_def Let_def checkWinConditions_eq setPhase_nightMafia)

section \<open>Role assignment\<close>

lemma Math_random_range: "0 \<le> Math_random rnd i \<and> Math_random rnd i < 1"
  by (simp add: Math_random_def frac_lt_1)

lemma draw_in_range: "nat \<lfloor>Math_random rnd i * real (i + 1)\<rfloor> \<le> i"
proof -
  have "Math_random rnd i * real (i + 1) < 1 * real (i + 1)"
    using Math_random_range [of rnd i] by (intro mult_strict_right_mono) simp_all
  then have "\<lfloor>Math_random rnd i * real (i + 1)\<rfloor> < int (i + 1)"
    by (simp add: floor_less_iff)
  then show ?thesis by linarith
qed

lemma swap_mset: "i < length xs \<Longrightarrow> j < length xs \<Longrightarrow> mset (swap xs i j) = mset xs"
  by (simp add: swap_def mset_swap)

lemma swap_length [simp]: "length (swap xs i j) = length xs"
  by (simp add: swap_def)

lemma shuffle_loop_mset: "i < length xs \<Longrightarrow> mset (shuffle_loop rnd i xs) = mset xs"
proof (induction i arbitrary: xs)
  case 0
  then show ?case by simp
next
  case (Suc i)
  have j: "nat \<lfloor>Math_random rnd (Suc i) * real (Suc i + 1)\<rfloor> < length xs"
    using draw_in_range [of rnd "Suc i"] Suc.prems by linarith
  have "mset (shuffle_loop rnd i (swap xs (Suc i) (nat \<lfloor>Math_random rnd (Suc i) * real (Suc i + 1)\<rfloor>)))
        = mset (swap xs (Suc i) (nat \<lfloor>Math_random rnd (Suc i) * real (Suc i + 1)\<rfloor>))"
    using Suc.prems by (intro Suc.IH) simp
  also have "\<dots> = mset xs"
    using Suc.prems j by (rule swap_mset)
  finally show ?case by (simp add: Let_def)
qed

lemma shuffleArray_mset: "mset (shuffleArray rnd xs) = mset xs"
proof (cases xs)
  case Nil
  then show ?thesis by (simp add: shuffleArray_def)
next
  case (Cons x ys)
  then show ?thesis unfolding shuffleArray_def by (intro shuffle_loop_mset) simp
qed

lemma shuffleArray_length [simp]: "length (shuffleArray rnd xs) = length xs"
  using shuffleArray_mset [of rnd xs] by (metis size_mset)

lemma startGame_roles_eq:
  "startGame_roles N = (if N < 2 then Inl RangeError else Inr (role_array N))"
proof -
  have a: "N < 2 \<Longrightarrow> startGame_roles N = Inl RangeError"
    by (simp add: startGame_roles_def Array_fill_def Let_def)
  have b: "startGame_roles N = Inr (role_array N)" if "2 \<le> N"
  proof -
    have m: "int N div 3 = int (N div 3)"
      by (simp add: zdiv_int)
    have v: "int (N div 3) + 2 \<le> int N"
      using that by linarith
    have n: "nat (int N - (int (N div 3) + 2)) = N - N div 3 - 2"
      by linarith
    show ?thesis
    proof (cases "1 < N div 3")
      case True
      then have "nat (int (N div 3) - 1) = N div 3 - 1"
        by linarith
      with True v n show ?thesis
        by (simp add: startGame_roles_def m Array_fill_def Let_def role_array_def godfatherCount_def)
    next
      case False
      with v n show ?thesis
        by (simp add: startGame_roles_def m Array_fill_def Let_def role_array_def godfatherCount_def)
    qed
  qed
  show ?thesis using a b by simp
qed

lemma villager_remainder_negative: "villager_remainder N < 0 \<longleftrightarrow> N < 2"
  by (auto simp: villager_remainder_def godfatherCount_def)

lemma role_array_length: "2 \<le> N \<Longrightarrow> length (role_array N) = N"
  by (auto simp: role_array_def godfatherCount_def)

lemma assign_nth:
  "i < length ps \<Longrightarrow>
     map (\<lambda>(index, player). player\<lparr>role := rs ! index\<rparr>) (enumerate 0 ps) ! i
       = (ps ! i)\<lparr>role := rs ! i\<rparr>"
  by (simp add: nth_enumerate_eq)

lemma assign_roles:
  "length rs = length ps \<Longrightarrow>
     map role (map (\<lambda>(index, player). player\<lparr>role := rs ! index\<rparr>) (enumerate 0 ps)) = rs"
  by (rule nth_equalityI) (simp_all add: nth_enumerate_eq)

lemma role_array_counts:
  "count (mset (role_array N)) Detective = 1"
  "count (mset (role_array N)) Doctor = 1"
  "count (mset (role_array N)) Godfather = (if 1 < N div 3 then 1 else 0)"
  "count (mset (role_array N)) Mafia + count (mset (role_array N)) Godfather = N div 3"
  "count (mset (role_array N)) Villager = N - N div 3 - 2"
  "count (mset (role_array N)) unassigned = 0"
  by (simp_all add: role_array_def godfatherCount_def)

lemma startGame_players:
  assumes "2 \<le> length (players g)"
  shows "\<exists>g' ev. startGame rnd g = Inr (g', ev)
          \<and> state g' = St_inProgress \<and> currentPhase g' = Ph_nightMafia
          \<and> players g' = map (\<lambda>(index, player).
                                 player\<lparr>role := shuffleArray rnd (role_array (length (players g))) ! index\<rparr>)
                             (enumerate 0 (players g))"
  using assms by (simp add: startGame_def startGame_roles_eq Let_def)

text \<open>
  C3.  Role assignment.  With five or more players the game starts (in progress, mafia night)
  and the roles of its players, in join order, are the shuffled role array: player \<open>i\<close> is
  the player that joined as number \<open>i\<close>, with the role \<open>shuffled[i]\<close> and nothing else
  changed.  The assigned roles are a permutation of the role array, which holds
  \<open>floor(N/3)\<close> mafia-aligned roles, one of them Godfather exactly when \<open>floor(N/3) > 1\<close>, one
  Detective, one Doctor, and Villager for all the rest.
\<close>

theorem startGame_assigns_permuted_roles:
  assumes "5 \<le> length (players g)"
  shows "\<exists>g' ev. startGame rnd g = Inr (g', ev)
          \<and> state g' = St_inProgress \<and> currentPhase g' = Ph_nightMafia
          \<and> length (players g') = length (players g)
          \<and> (\<forall>i < length (players g).
                players g' ! i
                  = (players g ! i)\<lparr>role := shuffleArray rnd (role_array (length (players g))) ! i\<rparr>)
          \<and> map role (players g') = shuffleArray rnd (role_array (length (players g)))
          \<and> mset (map role (players g')) = mset (role_array (length (players g)))
          \<and> count (mset (map role (players g'))) Mafia
              + count (mset (map role (players g'))) Godfather = length (players g) div 3
          \<and> count (mset (map role (players g'))) Godfather
              = (if 1 < length (players g) div 3 then 1 else 0)
          \<and> count (mset (map role (players g'))) Detective = 1
          \<and> count (mset (map role (players g'))) Doctor = 1
          \<and> count (mset (map role (players g'))) Villager
              = length (players g) - length (players g) div 3 - 2"
proof -
  define N where "N = length (players g)"
  define shuffled where "shuffled = shuffleArray rnd (role_array N)"
  have N2: "2 \<le> N" using assms by (simp add: N_def)
  have len: "length shuffled = length (players g)"
    using N2 by (simp add: shuffled_def role_array_length N_def)
  from startGame_players [of g rnd] N2 obtain g' ev where
    st: "startGame rnd g = Inr (g', ev)" "state g' = St_inProgress" "currentPhase g' = Ph_nightMafia"
    and pl: "players g' = map (\<lambda>(index, player). player\<lparr>role := shuffled ! index\<rparr>)
                            (enumerate 0 (players g))"
    unfolding N_def shuffled_def by blast
  have l: "length (players g') = length (players g)"
    by (simp add: pl)
  have nth: "\<forall>i < length (players g). players g' ! i = (players g ! i)\<lparr>role := shuffled ! i\<rparr>"
    unfolding pl by (intro allI impI assign_nth)
  have roles: "map role (players g') = shuffled"
    unfolding pl using len by (rule assign_roles)
  have ms: "mset (map role (players g')) = mset (role_array N)"
    by (simp add: roles shuffled_def shuffleArray_mset)
  have counts:
    "count (mset (map role (players g'))) Mafia + count (mset (map role (players g'))) Godfather = N div 3"
    "count (mset (map role (players g'))) Godfather = (if 1 < N div 3 then 1 else 0)"
    "count (mset (map role (players g'))) Detective = 1"
    "count (mset (map role (players g'))) Doctor = 1"
    "count (mset (map role (players g'))) Villager = N - N div 3 - 2"
    unfolding ms by (rule role_array_counts)+
  from st l nth roles ms counts show ?thesis
    unfolding N_def shuffled_def by blast
qed

theorem startGame_assigns_permuted_roles_witness:
  "5 \<le> length (players waiting_game)
   \<and> (\<exists>g' ev. startGame (\<lambda>i. 1 / 2) waiting_game = Inr (g', ev)
        \<and> map name (players g') = [''ann'', ''bob'', ''cy'', ''dee'', ''eve'', ''fay'']
        \<and> map role (players g') = [Mafia, Villager, Godfather, Villager, Detective, Doctor])"
proof -
  have n: "length (players waiting_game) = 6"
    by (simp add: waiting_game_def mk_game_def)
  have s: "shuffleArray (\<lambda>i. 1 / 2) (role_array 6)
             = [Mafia, Villager, Godfather, Villager, Detective, Doctor]"
    by code_simp
  have five: "5 \<le> length (players waiting_game)"
    by (simp add: n)
  from startGame_assigns_permuted_roles [OF five, of "\<lambda>i. 1 / 2"]
  obtain g' ev where
    st: "startGame (\<lambda>i. 1 / 2) waiting_game = Inr (g', ev)"
    and l: "length (players g') = length (players waiting_game)"
    and nth: "\<forall>i < length (players waiting_game).
                players g' ! i
                  = (players waiting_game ! i)
                      \<lparr>role := shuffleArray (\<lambda>i. 1 / 2) (role_array (length (players waiting_game))) ! i\<rparr>"
    and roles: "map role (players g')
                  = shuffleArray (\<lambda>i. 1 / 2) (role_array (length (players waiting_game)))"
    by blast
  have "map name (players g') = map name (players waiting_game)"
    using l nth by (intro nth_equalityI) simp_all
  then have names: "map name (players g') = [''ann'', ''bob'', ''cy'', ''dee'', ''eve'', ''fay'']"
    by (simp add: waiting_game_def mk_game_def mk_player_def)
  from st names roles five show ?thesis
    by (simp add: n s)
qed

text \<open>
  C9.  Too few players.  The assignment fails exactly when the villager remainder
  \<open>N - regularMafiaCount - godfatherCount - 2\<close> is negative, which is when there are fewer
  than two players: \<open>Array(n)\<close> of the negative remainder throws the RangeError, inside
  \<open>startGame\<close> itself and before any role is assigned, saved or announced.  \<open>startGame\<close> has
  no test of the number of players of its own; this exception is its failure for too few
  players.
\<close>

theorem startGame_fails_on_negative_remainder:
  "(villager_remainder (length (players g)) < 0 \<longrightarrow> startGame rnd g = Inl RangeError)
   \<and> (startGame rnd g = Inl RangeError \<longrightarrow> villager_remainder (length (players g)) < 0)
   \<and> (villager_remainder (length (players g)) < 0 \<longleftrightarrow> length (players g) < 2)"
  by (simp add: startGame_def startGame_roles_eq villager_remainder_negative Let_def)

theorem startGame_fails_on_negative_remainder_witness:
  "villager_remainder (length (players lonely_game)) < 0
   \<and> startGame (\<lambda>i. 0) lonely_game = Inl RangeError"
proof -
  have "villager_remainder (length (players lonely_game)) < 0"
    by (simp add: villager_remainder_def godfatherCount_def lonely_game_def mk_game_def)
  with startGame_fails_on_negative_remainder [of lonely_game "\<lambda>i. 0"] show ?thesis
    by blast
qed

section \<open>The tally object\<close>

lemma tally_Nil [simp]: "tally [] t = 0"
  by (simp add: tally_def)

lemma tally_Cons [simp]: "tally (x # vs) t = (if snd x = t then 1 else 0) + tally vs t"
  by (simp add: tally_def)

lemma tally_append [simp]: "tally (vs @ ws) t = tally vs t + tally ws t"
  by (simp add: tally_def)

lemma put_absent: "map_of m k = None \<Longrightarrow> put k v m = m @ [(k, v)]"
  by (induction m) (auto split: if_splits)

lemma put_table_present:
  "distinct ks \<Longrightarrow> t \<in> set ks \<Longrightarrow>
     put t v (map (\<lambda>k. (k, f k)) ks) = map (\<lambda>k. (k, (f(t := v)) k)) ks"
proof (induction ks)
  case Nil
  then show ?case by simp
next
  case (Cons k ks)
  show ?case
  proof (cases "k = t")
    case True
    with Cons.prems have "t \<notin> set ks" by simp
    then have "map (\<lambda>k. (k, (f(t := v)) k)) ks = map (\<lambda>k. (k, f k)) ks"
      by (intro map_cong) auto
    with True show ?thesis by simp
  next
    case False
    with Cons show ?thesis by simp
  qed
qed

lemma put_table_absent:
  "t \<notin> set ks \<Longrightarrow> put t v (map (\<lambda>k. (k, f k)) ks) = map (\<lambda>k. (k, (f(t := v)) k)) (ks @ [t])"
  by (induction ks) auto

lemma map_of_table: "t \<in> set ks \<Longrightarrow> map_of (map (\<lambda>k. (k, f k)) ks) t = Some (f t)"
  by (induction ks) auto

lemma players_fold_table:
  "distinct (ks @ map name ps) \<Longrightarrow> ''__proto__'' \<notin> set (map name ps) \<Longrightarrow>
     fold (\<lambda>p obj. obj_assign obj (name p) (Num 0)) ps (map (\<lambda>k. (k, Num 0)) ks)
       = map (\<lambda>k. (k, Num 0)) (ks @ map name ps)"
proof (induction ps arbitrary: ks)
  case Nil
  then show ?case by simp
next
  case (Cons p ps)
  have a: "name p \<notin> set ks" "name p \<noteq> ''__proto__''"
    using Cons.prems by auto
  have "obj_assign (map (\<lambda>k. (k, Num 0)) ks) (name p) (Num 0)
          = map (\<lambda>k. (k, Num 0)) (ks @ [name p])"
    using a by (simp add: obj_assign_def put_table_absent)
  moreover have "distinct ((ks @ [name p]) @ map name ps)" "''__proto__'' \<notin> set (map name ps)"
    using Cons.prems by auto
  ultimately show ?case
    using Cons.IH [of "ks @ [name p]"] by simp
qed

lemma votes_fold_table:
  "distinct ks \<Longrightarrow> ''__proto__'' \<notin> set ks \<Longrightarrow> \<forall>x \<in> set vs. snd x \<in> set ks \<Longrightarrow>
     fold (\<lambda>(voter, target) obj. obj_incr obj target) vs (map (\<lambda>k. (k, Num (c k))) ks)
       = map (\<lambda>k. (k, Num (c k + tally vs k))) ks"
proof (induction vs arbitrary: c)
  case Nil
  then show ?case by simp
next
  case (Cons x vs)
  obtain voter t where x: "x = (voter, t)" by (cases x)
  have t: "t \<in> set ks" "t \<noteq> ''__proto__''"
    using Cons.prems x by auto
  have "obj_incr (map (\<lambda>k. (k, Num (c k))) ks) t
          = map (\<lambda>k. (k, ((\<lambda>k. Num (c k))(t := Num (Suc (c t)))) k)) ks"
    using t Cons.prems(1)
    by (simp add: obj_incr_def obj_assign_def obj_get_num_def map_of_table put_table_present)
  also have "\<dots> = map (\<lambda>k. (k, Num ((c(t := Suc (c t))) k))) ks"
    by (intro map_cong) auto
  finally have step: "obj_incr (map (\<lambda>k. (k, Num (c k))) ks) t
                        = map (\<lambda>k. (k, Num ((c(t := Suc (c t))) k))) ks" .
  have "fold (\<lambda>(voter, target) obj. obj_incr obj target) vs
          (map (\<lambda>k. (k, Num ((c(t := Suc (c t))) k))) ks)
        = map (\<lambda>k. (k, Num ((c(t := Suc (c t))) k + tally vs k))) ks"
    using Cons.prems by (intro Cons.IH) auto
  also have "\<dots> = map (\<lambda>k. (k, Num (c k + tally (x # vs) k))) ks"
    by (intro map_cong) (auto simp: x)
  finally show ?case by (simp add: x step)
qed

lemma voteCount_of_table:
  assumes "distinct (map name ps)" "''__proto__'' \<notin> set (map name ps)"
    "\<forall>x \<in> set vs. snd x \<in> set (map name ps)"
  shows "voteCount_of ps vs = map (\<lambda>k. (k, Num (tally vs k))) (map name ps)"
proof -
  have "fold (\<lambda>p obj. obj_assign obj (name p) (Num 0)) ps [] = map (\<lambda>k. (k, Num 0)) (map name ps)"
    using players_fold_table [of "[]" ps] assms by simp
  then show ?thesis
    unfolding voteCount_of_def using votes_fold_table [of "map name ps" vs "\<lambda>k. 0"] assms by simp
qed

lemma insort_key_map:
  "insort_key g (h x) (map h ys) = map h (insort_key (\<lambda>y. g (h y)) x ys)"
  by (induction ys) auto

lemma sort_key_map: "sort_key g (map h xs) = map h (sort_key (\<lambda>y. g (h y)) xs)"
  by (induction xs) (simp_all add: insort_key_map)

lemma Object_entries_table:
  "Object_entries (map (\<lambda>k. (k, f k)) ks)
     = map (\<lambda>k. (k, f k))
         (sort_key (\<lambda>k. case array_index k of Some n \<Rightarrow> n | None \<Rightarrow> 0)
            (filter (\<lambda>k. array_index k \<noteq> None) ks)
          @ filter (\<lambda>k. array_index k = None) ks)"
  by (simp add: Object_entries_def filter_map comp_def sort_key_map index_key_def)

lemma own_keys_order_eq:
  "own_keys_order ks =
     sort_key (\<lambda>k. case array_index k of Some n \<Rightarrow> n | None \<Rightarrow> 0)
       (filter (\<lambda>k. array_index k \<noteq> None) ks)
     @ filter (\<lambda>k. array_index k = None) ks"
  by (simp add: own_keys_order_def Object_entries_table comp_def)

lemma Object_entries_own_keys:
  "Object_entries (map (\<lambda>k. (k, f k)) ks) = map (\<lambda>k. (k, f k)) (own_keys_order ks)"
  by (simp add: Object_entries_table own_keys_order_eq)

lemma set_own_keys_order [simp]: "set (own_keys_order ks) = set ks"
  by (auto simp: own_keys_order_eq)

lemma own_keys_order_roster:
  "\<forall>k \<in> set ks. array_index k = None \<Longrightarrow> own_keys_order ks = ks"
  by (simp add: own_keys_order_eq)

lemma Math_max_fold:
  "fold (\<lambda>x acc. js_max2 acc x) (map Num ns) (Num a) = Num (fold max ns a)"
  by (induction ns arbitrary: a) (simp_all add: max.commute)

lemma Math_max_counts:
  "ns \<noteq> [] \<Longrightarrow> Math_max (map Num ns) = Num (Max (set ns))"
proof (cases ns)
  case Nil
  then show "ns \<noteq> [] \<Longrightarrow> ?thesis" by simp
next
  case (Cons n ms)
  have "Math_max (map Num ns) = Num (fold max ms n)"
    by (simp add: Math_max_def Cons Math_max_fold)
  also have "fold max ms n = Max (set ns)"
    using Max.set_eq_fold [of n ms] by (simp add: Cons)
  finally show ?thesis .
qed

lemma tally_object:
  assumes "distinct (map name ps)" "''__proto__'' \<notin> set (map name ps)"
    "\<forall>x \<in> set vs. snd x \<in> set (map name ps)" "ps \<noteq> []"
  shows "Math_max (map snd (Object_entries (voteCount_of ps vs))) = Num (top_tally (map name ps) vs)"
    and "map fst (filter (\<lambda>(k, count). js_eq count (Num (top_tally (map name ps) vs)))
                    (Object_entries (voteCount_of ps vs)))
         = top_candidates (map name ps) vs"
proof -
  let ?ks = "own_keys_order (map name ps)"
  have oe: "Object_entries (voteCount_of ps vs) = map (\<lambda>k. (k, Num (tally vs k))) ?ks"
    unfolding voteCount_of_table [OF assms(1-3)] by (rule Object_entries_own_keys)
  have ne: "map (tally vs) ?ks \<noteq> []"
    using assms(4) set_own_keys_order [of "map name ps"] by (cases ?ks) auto
  have "map snd (Object_entries (voteCount_of ps vs)) = map Num (map (tally vs) ?ks)"
    by (simp add: oe comp_def)
  then have "Math_max (map snd (Object_entries (voteCount_of ps vs)))
               = Num (Max (set (map (tally vs) ?ks)))"
    using Math_max_counts [OF ne] by simp
  then show "Math_max (map snd (Object_entries (voteCount_of ps vs)))
               = Num (top_tally (map name ps) vs)"
    by (simp add: top_tally_def)
  show "map fst (filter (\<lambda>(k, count). js_eq count (Num (top_tally (map name ps) vs)))
                    (Object_entries (voteCount_of ps vs)))
         = top_candidates (map name ps) vs"
    by (simp add: oe filter_map comp_def js_eq_def top_candidates_def)
qed

lemma top_candidates_nonempty:
  assumes "names \<noteq> []"
  shows "top_candidates names vs \<noteq> []"
proof -
  have "top_tally names vs \<in> tally vs ` set names"
    unfolding top_tally_def using assms by (intro Max_in) auto
  then obtain k where "k \<in> set names" "tally vs k = top_tally names vs" by auto
  then have "k \<in> set (top_candidates names vs)"
    by (simp add: top_candidates_def)
  then show ?thesis by auto
qed

lemma top_candidates_set:
  "set (top_candidates names vs) = {k \<in> set names. tally vs k = top_tally names vs}"
  by (auto simp: top_candidates_def)

lemma top_tally_greatest: "k \<in> set names \<Longrightarrow> tally vs k \<le> top_tally names vs"
  unfolding top_tally_def by (intro Max_ge) auto

lemma dayVote_resolve_eq:
  assumes "distinct (map name (players g))" "''__proto__'' \<notin> set (map name (players g))"
    "\<forall>x \<in> set (votes g). snd x \<in> set (map name (players g))" "players g \<noteq> []"
  shows "dayVote_resolve g n =
     (if (n + 1) div 2 \<le> top_tally (map name (players g)) (votes g)
      then Some (hd (top_candidates (map name (players g)) (votes g))) else None)"
proof -
  have ne: "top_candidates (map name (players g)) (votes g) \<noteq> []"
    using assms(4) by (intro top_candidates_nonempty) simp
  show ?thesis
    using ne
    unfolding dayVote_resolve_def Let_def tally_object [OF assms]
    by (cases "top_candidates (map name (players g)) (votes g)") simp_all
qed

lemma mafiaVote_resolve_eq:
  assumes "distinct (map name (players g))" "''__proto__'' \<notin> set (map name (players g))"
    "\<forall>x \<in> set (mafiaVotes g). snd x \<in> set (map name (players g))" "players g \<noteq> []"
  shows "mafiaVote_resolve g =
     (let candidates = top_candidates (map name (players g)) (mafiaVotes g)
      in if length candidates = 1 then Some (candidates ! 0)
         else if length candidates > 1 then
           find (\<lambda>t. t \<in> set candidates) (rev (map snd (mafiaVotes g)))
         else None)"
  unfolding mafiaVote_resolve_def Let_def tally_object [OF assms] by (rule refl)

section \<open>Day-vote resolution\<close>

lemma dayVote_valid:
  assumes "state g = St_inProgress" "currentPhase g = Ph_day"
    "find (\<lambda>p. name p = v \<and> isAlive p) (players g) = Some x"
    "\<not> Map_has (votes g) v"
    "find (\<lambda>p. name p = t \<and> isAlive p) (players g) = Some y"
    "\<not> Map_key_refused v"
  shows "dayVote (Some g) v t =
     (let g1 = g\<lparr>votes := votes g @ [(v, t)]\<rparr>;
          ev1 = [(Room (gameId g), GameUpdated g1)];
          n = length (filter isAlive (players g))
      in if length (votes g1) = n then
           (case dayVote_resolve g1 n of
              None \<Rightarrow> dayVote_finish g1 ev1
            | Some e \<Rightarrow>
                if truthy (Some e) then
                  (case find (\<lambda>p. name p = e) (players g) of
                     None \<Rightarrow> (Status500, Some g1, ev1)
                   | Some p \<Rightarrow>
                       dayVote_finish
                         (g1\<lparr>players := update_first (\<lambda>p. name p = e)
                                          (\<lambda>p. p\<lparr>isAlive := False\<rparr>) (players g),
                             lastKilled := Some e\<rparr>)
                         (ev1 @ [(Room (gameId g), PlayerEliminated e ''vote''),
                                 (Room (gameId g), DayVoteResult e)]))
                else dayVote_finish g1 ev1)
         else (Json g1, Some g1, ev1))"
proof -
  have "put v t (votes g) = votes g @ [(v, t)]"
    using assms(4) by (intro put_absent) (simp add: Map_has_def)
  then show ?thesis
    using assms by (simp add: dayVote_def Map_set_def Let_def cong: option.case_cong if_cong)
qed

lemma dayVote_refused:
  assumes "state g = St_inProgress" "currentPhase g = Ph_day"
    "find (\<lambda>p. name p = v \<and> isAlive p) (players g) = Some x"
    "\<not> Map_has (votes g) v"
    "find (\<lambda>p. name p = t \<and> isAlive p) (players g) = Some y"
    "Map_key_refused v"
  shows "dayVote (Some g) v t = (Status500, Some g, [])"
  using assms by (simp add: dayVote_def Map_set_def)

lemma dayVote_finish_fields:
  assumes "state g = St_inProgress"
  shows "\<exists>r g' ev'. dayVote_finish g ev = (r, Some g', ev')
           \<and> players g' = players g \<and> lastKilled g' = lastKilled g \<and> votes g' = []"
  by (cases "aliveMafia g = 0 \<or> aliveTown g \<le> aliveMafia g")
     (simp_all add: dayVote_finish_eq [OF assms])

lemma find_name_exists:
  "e \<in> set (map name ps) \<Longrightarrow> \<exists>p. find (\<lambda>p. name p = e) ps = Some p"
  by (induction ps) auto

text \<open>
  C2 (as amended).  Day-vote resolution, for a game whose players have distinct, non-empty
  names, none of them \<open>__proto__\<close>, and whose recorded votes name players.  An accepted vote
  of a voter whose name the votes Map takes as a key is recorded; unless the number of
  recorded votes is now the number of alive players, nothing else changes.  When it is, the ledger is resolved against the threshold
  \<open>ceil(alive / 2)\<close>: if the highest tally reaches it, the first name with that tally in
  the iteration order of the tally object is eliminated (\<open>isAlive = false\<close> for that player
  only, the name stored as \<open>lastKilled\<close>); if not, no player and no \<open>lastKilled\<close> changes.
  In both cases the votes end cleared.  The iteration order of the tally object is the
  join order when no name is an array index (a canonical decimal string below
  \<open>2^32 - 1\<close>); names that are array indices come first, in ascending numeric order.
\<close>

theorem dayVote_resolution:
  assumes "state g = St_inProgress" "currentPhase g = Ph_day"
    and "find (\<lambda>p. name p = v \<and> isAlive p) (players g) = Some voter"
    and "\<not> Map_has (votes g) v"
    and "find (\<lambda>p. name p = t \<and> isAlive p) (players g) = Some target"
    and "distinct (map name (players g))"
    and "''__proto__'' \<notin> set (map name (players g))"
    and "[] \<notin> set (map name (players g))"
    and "\<forall>x \<in> set (votes g). snd x \<in> set (map name (players g))"
    and "\<not> Map_key_refused v"
  shows "\<exists>r g' ev. dayVote (Some g) v t = (r, Some g', ev)
     \<and> (length (votes g @ [(v, t)]) \<noteq> length (filter isAlive (players g)) \<longrightarrow>
          g' = g\<lparr>votes := votes g @ [(v, t)]\<rparr>)
     \<and> (length (votes g @ [(v, t)]) = length (filter isAlive (players g)) \<longrightarrow>
          votes g' = []
          \<and> ((length (filter isAlive (players g)) + 1) div 2
                \<le> top_tally (map name (players g)) (votes g @ [(v, t)]) \<longrightarrow>
              (\<exists>e rest. top_candidates (map name (players g)) (votes g @ [(v, t)]) = e # rest
                 \<and> tally (votes g @ [(v, t)]) e = top_tally (map name (players g)) (votes g @ [(v, t)])
                 \<and> players g' = update_first (\<lambda>p. name p = e) (\<lambda>p. p\<lparr>isAlive := False\<rparr>) (players g)
                 \<and> lastKilled g' = Some e
                 \<and> ((\<forall>k \<in> set (map name (players g)). array_index k = None) \<longrightarrow>
                      filter (\<lambda>k. tally (votes g @ [(v, t)]) k
                                     = top_tally (map name (players g)) (votes g @ [(v, t)]))
                        (map name (players g)) = e # rest)))
          \<and> (top_tally (map name (players g)) (votes g @ [(v, t)])
                < (length (filter isAlive (players g)) + 1) div 2 \<longrightarrow>
              players g' = players g \<and> lastKilled g' = lastKilled g))"
proof -
  define names where "names = map name (players g)"
  define vs where "vs = votes g @ [(v, t)]"
  define n where "n = length (filter isAlive (players g))"
  define g1 where "g1 = g\<lparr>votes := vs\<rparr>"
  define ev1 where "ev1 = [(Room (gameId g), GameUpdated g1)]"
  define M where "M = top_tally names vs"
  have tname: "t \<in> set names"
    using assms(5) by (auto simp: find_Some_iff names_def)
  have ne: "players g \<noteq> []"
    using assms(3) by auto
  have wf1: "distinct (map name (players g1))" "''__proto__'' \<notin> set (map name (players g1))"
    "\<forall>x \<in> set (votes g1). snd x \<in> set (map name (players g1))" "players g1 \<noteq> []"
    using assms(6,7,9) tname ne by (auto simp: g1_def vs_def names_def)
  have res: "dayVote_resolve g1 n =
               (if (n + 1) div 2 \<le> M then Some (hd (top_candidates names vs)) else None)"
    using dayVote_resolve_eq [OF wf1, of n] by (simp add: g1_def M_def names_def)
  have st1: "state g1 = St_inProgress"
    using assms(1) by (simp add: g1_def)
  have dv0: "dayVote (Some g) v t =
     (if length (votes g1) = n then
        (case dayVote_resolve g1 n of
           None \<Rightarrow> dayVote_finish g1 ev1
         | Some e \<Rightarrow>
             if truthy (Some e) then
               (case find (\<lambda>p. name p = e) (players g) of
                  None \<Rightarrow> (Status500, Some g1, ev1)
                | Some p \<Rightarrow>
                    dayVote_finish
                      (g1\<lparr>players := update_first (\<lambda>p. name p = e)
                                       (\<lambda>p. p\<lparr>isAlive := False\<rparr>) (players g),
                          lastKilled := Some e\<rparr>)
                      (ev1 @ [(Room (gameId g), PlayerEliminated e ''vote''),
                              (Room (gameId g), DayVoteResult e)]))
             else dayVote_finish g1 ev1)
      else (Json g1, Some g1, ev1))"
    unfolding g1_def vs_def n_def ev1_def
    by (rule dayVote_valid [OF assms(1-5) assms(10), unfolded Let_def])
  have lv: "votes g1 = vs"
    by (simp add: g1_def)
  note dv = dv0 [unfolded lv]
  consider (pending) "length vs \<noteq> n"
    | (quiet) "length vs = n" "M < (n + 1) div 2"
    | (out) "length vs = n" "(n + 1) div 2 \<le> M"
    by linarith
  then have "\<exists>r g' ev. dayVote (Some g) v t = (r, Some g', ev)
     \<and> (length vs \<noteq> n \<longrightarrow> g' = g1)
     \<and> (length vs = n \<longrightarrow>
          votes g' = []
          \<and> ((n + 1) div 2 \<le> M \<longrightarrow>
              (\<exists>e rest. top_candidates names vs = e # rest \<and> tally vs e = M
                 \<and> players g' = update_first (\<lambda>p. name p = e) (\<lambda>p. p\<lparr>isAlive := False\<rparr>) (players g)
                 \<and> lastKilled g' = Some e
                 \<and> ((\<forall>k \<in> set names. array_index k = None) \<longrightarrow>
                      filter (\<lambda>k. tally vs k = M) names = e # rest)))
          \<and> (M < (n + 1) div 2 \<longrightarrow> players g' = players g \<and> lastKilled g' = lastKilled g))"
  proof cases
    case pending
    then show ?thesis by (simp add: dv)
  next
    case quiet
    from dayVote_finish_fields [OF st1, of ev1] obtain r g' ev' where
      "dayVote_finish g1 ev1 = (r, Some g', ev')" "players g' = players g1"
      "lastKilled g' = lastKilled g1" "votes g' = []"
      by blast
    moreover have "dayVote (Some g) v t = dayVote_finish g1 ev1"
      using quiet by (simp add: dv res)
    moreover have "players g1 = players g" "lastKilled g1 = lastKilled g"
      by (simp_all add: g1_def)
    ultimately show ?thesis
      using quiet by auto
  next
    case out
    obtain e rest where tc: "top_candidates names vs = e # rest"
      using top_candidates_nonempty [of names vs] ne
      by (cases "top_candidates names vs") (auto simp: names_def)
    then have "e \<in> set (top_candidates names vs)" by simp
    then have e: "e \<in> set names" "tally vs e = M"
      by (auto simp: top_candidates_set M_def)
    have "e \<noteq> []" using assms(8) e(1) unfolding names_def by blast
    then have tr: "truthy (Some e)" by (simp add: truthy_def)
    from find_name_exists [of e "players g"] e(1)
    obtain p where p: "find (\<lambda>p. name p = e) (players g) = Some p"
      by (auto simp: names_def)
    define g2 where "g2 = g1\<lparr>players := update_first (\<lambda>p. name p = e)
                                        (\<lambda>p. p\<lparr>isAlive := False\<rparr>) (players g),
                              lastKilled := Some e\<rparr>"
    have st2: "state g2 = St_inProgress" using st1 by (simp add: g2_def)
    from dayVote_finish_fields [OF st2] obtain r g' ev' where
      fin: "dayVote_finish g2 (ev1 @ [(Room (gameId g), PlayerEliminated e ''vote''),
                                      (Room (gameId g), DayVoteResult e)]) = (r, Some g', ev')"
        "players g' = players g2" "lastKilled g' = lastKilled g2" "votes g' = []"
      by blast
    have roster: "filter (\<lambda>k. tally vs k = M) names = e # rest"
      if "\<forall>k \<in> set names. array_index k = None"
      using tc own_keys_order_roster [OF that] by (simp add: top_candidates_def M_def)
    have "dayVote (Some g) v t = (r, Some g', ev')"
      using out tc tr p fin(1) by (simp add: dv res g2_def)
    with out tc e fin roster show ?thesis
      by (auto simp: g2_def)
  qed
  then show ?thesis
    unfolding names_def vs_def n_def g1_def M_def by simp
qed

lemma array_index_letters:
  "array_index ''ann'' = None" "array_index ''bob'' = None" "array_index ''cy'' = None"
  "array_index ''dee'' = None" "array_index ''eve'' = None" "array_index ''fay'' = None"
  by (simp_all add: array_index_def digit_of_def)

lemma array_index_numbers: "array_index ''10'' = Some 10" "array_index ''9'' = Some 9"
  by (simp_all add: array_index_def digit_of_def)

theorem dayVote_resolution_witness:
  "state day_game = St_inProgress \<and> currentPhase day_game = Ph_day
   \<and> \<not> Map_has (votes day_game) ''dee'' \<and> \<not> Map_key_refused ''dee''
   \<and> distinct (map name (players day_game))
   \<and> ''__proto__'' \<notin> set (map name (players day_game))
   \<and> [] \<notin> set (map name (players day_game))
   \<and> length (votes day_game @ [(''dee'', ''cy'')]) = length (filter isAlive (players day_game))
   \<and> top_tally (map name (players day_game)) (votes day_game @ [(''dee'', ''cy'')]) = 2
   \<and> (\<exists>r g' ev. dayVote (Some day_game) ''dee'' ''cy'' = (r, Some g', ev)
         \<and> votes g' = [] \<and> lastKilled g' = Some ''cy''
         \<and> map isAlive (players g') = [True, False, False, True, True, False])"
proof -
  have a: "state day_game = St_inProgress" "currentPhase day_game = Ph_day"
    "find (\<lambda>p. name p = ''dee'' \<and> isAlive p) (players day_game) = Some (mk_player ''dee'' Doctor True)"
    "\<not> Map_has (votes day_game) ''dee''"
    "find (\<lambda>p. name p = ''cy'' \<and> isAlive p) (players day_game) = Some (mk_player ''cy'' Detective True)"
    by (simp_all add: day_game_def mk_game_def mk_player_def Map_has_def)
  have names: "map name (players day_game) = [''ann'', ''bob'', ''cy'', ''dee'', ''eve'', ''fay'']"
    by (simp add: day_game_def mk_game_def mk_player_def)
  have b: "distinct (map name (players day_game))"
    "''__proto__'' \<notin> set (map name (players day_game))"
    "[] \<notin> set (map name (players day_game))"
    "\<forall>x \<in> set (votes day_game). snd x \<in> set (map name (players day_game))"
    unfolding names by (simp_all add: day_game_def mk_game_def)
  have n: "length (votes day_game @ [(''dee'', ''cy'')]) = length (filter isAlive (players day_game))"
    by (simp add: day_game_def mk_game_def mk_player_def)
  have n4: "length (filter isAlive (players day_game)) = 4"
    by (simp add: day_game_def mk_game_def mk_player_def)
  have vs: "votes day_game @ [(''dee'', ''cy'')]
              = [(''ann'', ''cy''), (''eve'', ''dee''), (''cy'', ''dee''), (''dee'', ''cy'')]"
    by (simp add: day_game_def mk_game_def)
  have tt: "top_tally (map name (players day_game)) (votes day_game @ [(''dee'', ''cy'')]) = 2"
    unfolding names vs by (simp add: top_tally_def tally_def)
  have tc: "top_candidates (map name (players day_game)) (votes day_game @ [(''dee'', ''cy'')])
              = [''cy'', ''dee'']"
    unfolding top_candidates_def tt unfolding names vs
    by (simp add: own_keys_order_eq array_index_letters tally_def)
  have thr: "(length (filter isAlive (players day_game)) + 1) div 2
               \<le> top_tally (map name (players day_game)) (votes day_game @ [(''dee'', ''cy'')])"
    by (simp add: tt n4)
  have k: "\<not> Map_key_refused ''dee''"
    by (simp add: Map_key_refused_def)
  from dayVote_resolution [OF a b k] n thr obtain r g' ev e rest where
    dv: "dayVote (Some day_game) ''dee'' ''cy'' = (r, Some g', ev)" "votes g' = []"
    and e: "top_candidates (map name (players day_game)) (votes day_game @ [(''dee'', ''cy'')]) = e # rest"
      "players g' = update_first (\<lambda>p. name p = e) (\<lambda>p. p\<lparr>isAlive := False\<rparr>) (players day_game)"
      "lastKilled g' = Some e"
    by blast
  from e(1) tc have "e = ''cy''" by simp
  with e have lk: "lastKilled g' = Some ''cy''"
    "map isAlive (players g') = [True, False, False, True, True, False]"
    by (simp_all add: day_game_def mk_game_def mk_player_def)
  have "\<exists>r g' ev. dayVote (Some day_game) ''dee'' ''cy'' = (r, Some g', ev)
         \<and> votes g' = [] \<and> lastKilled g' = Some ''cy''
         \<and> map isAlive (players g') = [True, False, False, True, True, False]"
    by (intro exI conjI) (rule dv lk)+
  with a(1,2,4) k b(1-3) n tt show ?thesis
    by (simp only: simp_thms)
qed

text \<open>
  C2, the claim as stated, fails.  Four alive players joined in the order \<open>10\<close>, \<open>9\<close>,
  \<open>ann\<close>, \<open>bob\<close>; the last vote makes both \<open>10\<close> and \<open>9\<close> reach two votes, the threshold.
  \<open>10\<close> is first in join order, but the tally object lists \<open>9\<close> before \<open>10\<close>, and \<open>9\<close> is
  eliminated.
\<close>

theorem dayVote_tie_not_join_order_counterexample:
  "map name (players numbered_day_game) = [''10'', ''9'', ''ann'', ''bob'']
   \<and> length (filter isAlive (players numbered_day_game)) = 4
   \<and> tally (votes numbered_day_game @ [(''9'', ''10'')]) ''10'' = 2
   \<and> tally (votes numbered_day_game @ [(''9'', ''10'')]) ''9'' = 2
   \<and> fst (snd (dayVote (Some numbered_day_game) ''9'' ''10''))
       = Some (numbered_day_game
                 \<lparr>players := [mk_player ''10'' Mafia True, mk_player ''9'' Villager False,
                              mk_player ''ann'' Villager True, mk_player ''bob'' Doctor True],
                  votes := [], lastKilled := Some ''9'', currentPhase := Ph_nightMafia\<rparr>)"
proof -
  have a: "state numbered_day_game = St_inProgress" "currentPhase numbered_day_game = Ph_day"
    "find (\<lambda>p. name p = ''9'' \<and> isAlive p) (players numbered_day_game) = Some (mk_player ''9'' Villager True)"
    "\<not> Map_has (votes numbered_day_game) ''9''"
    "find (\<lambda>p. name p = ''10'' \<and> isAlive p) (players numbered_day_game) = Some (mk_player ''10'' Mafia True)"
    by (simp_all add: numbered_day_game_def mk_game_def mk_player_def Map_has_def)
  have k: "\<not> Map_key_refused ''9''"
    by (simp add: Map_key_refused_def)
  have n: "length (filter isAlive (players numbered_day_game)) = 4"
    "length (votes numbered_day_game) = 3"
    by (simp_all add: numbered_day_game_def mk_game_def mk_player_def)
  have vc: "voteCount_of (players numbered_day_game) (votes numbered_day_game @ [(''9'', ''10'')])
    = [(''10'', Num 2), (''9'', Num 2), (''ann'', Num 0), (''bob'', Num 0)]"
    by (simp add: voteCount_of_def obj_assign_def obj_incr_def obj_get_num_def
          numbered_day_game_def mk_game_def mk_player_def numeral_2_eq_2)
  have oe: "Object_entries [(''10'', Num 2), (''9'', Num 2), (''ann'', Num 0), (''bob'', Num 0)]
    = [(''9'', Num 2), (''10'', Num 2), (''ann'', Num 0), (''bob'', Num 0)]"
    by (simp add: Object_entries_def index_key_def array_index_letters array_index_numbers)
  have dr: "dayVote_resolve
              (numbered_day_game\<lparr>votes := votes numbered_day_game @ [(''9'', ''10'')]\<rparr>) 4
            = Some ''9''"
    using vc by (simp add: dayVote_resolve_def oe Math_max_def js_eq_def Let_def)
  have res: "fst (snd (dayVote (Some numbered_day_game) ''9'' ''10''))
       = Some (numbered_day_game
                 \<lparr>players := [mk_player ''10'' Mafia True, mk_player ''9'' Villager False,
                              mk_player ''ann'' Villager True, mk_player ''bob'' Doctor True],
                  votes := [], lastKilled := Some ''9'', currentPhase := Ph_nightMafia\<rparr>)"
    unfolding dayVote_valid [OF a k] Let_def
    apply (simp add: n dr truthy_def)
    apply (simp add: numbered_day_game_def mk_game_def mk_player_def dayVote_finish_def
             checkWinConditions_def setPhase_nightMafia Let_def)
    done
  have "map name (players numbered_day_game) = [''10'', ''9'', ''ann'', ''bob'']"
    "tally (votes numbered_day_game @ [(''9'', ''10'')]) ''10'' = 2"
    "tally (votes numbered_day_game @ [(''9'', ''10'')]) ''9'' = 2"
    by (simp_all add: numbered_day_game_def mk_game_def mk_player_def tally_def)
  with n(1) res show ?thesis by blast
qed

section \<open>Mafia-vote resolution\<close>

lemma find_append_first:
  "\<forall>z \<in> set xs. \<not> P z \<Longrightarrow> P y \<Longrightarrow> find P (xs @ y # ys) = Some y"
  by (induction xs) auto

lemma tally_pos_vote: "0 < tally vs k \<Longrightarrow> \<exists>x \<in> set vs. snd x = k"
  by (induction vs) (auto split: if_splits)

text \<open>
  What the resolution of the mafia ledger does select when the players have distinct names,
  none of them \<open>__proto__\<close>, and every recorded vote names a player: the target of the last
  cast vote among the votes for a target of highest tally.
\<close>

lemma mafiaVote_resolve_last_top:
  assumes "distinct (map name (players g))" "''__proto__'' \<notin> set (map name (players g))"
    and "\<forall>x \<in> set (mafiaVotes g). snd x \<in> set (map name (players g))"
    and "mafiaVotes g \<noteq> []"
  shows "\<exists>pre voter t post.
           mafiaVotes g = pre @ (voter, t) # post
           \<and> mafiaVote_resolve g = Some t
           \<and> (\<forall>k \<in> set (map name (players g)). tally (mafiaVotes g) k \<le> tally (mafiaVotes g) t)
           \<and> (\<forall>w \<in> set post. tally (mafiaVotes g) (snd w) < tally (mafiaVotes g) t)"
proof -
  define names where "names = map name (players g)"
  define vs where "vs = mafiaVotes g"
  define M where "M = top_tally names vs"
  define tc where "tc = top_candidates names vs"
  have targets: "\<forall>x \<in> set vs. snd x \<in> set names"
    using assms(3) by (simp add: names_def vs_def)
  have ne: "players g \<noteq> []"
    using assms(3,4) by (cases "mafiaVotes g") auto
  have in_tc: "k \<in> set tc \<longleftrightarrow> k \<in> set names \<and> tally vs k = M" for k
    by (auto simp: tc_def top_candidates_set M_def)
  obtain x0 where x0: "x0 \<in> set vs"
    using assms(4) by (cases vs) (auto simp: vs_def)
  then have "0 < tally vs (snd x0)"
    by (induction vs) auto
  moreover have "tally vs (snd x0) \<le> M"
    unfolding M_def using targets x0 by (intro top_tally_greatest) auto
  ultimately have Mpos: "0 < M" by linarith
  have "tc \<noteq> []"
    unfolding tc_def using ne by (intro top_candidates_nonempty) (simp add: names_def)
  then obtain c where c: "c \<in> set tc" by (cases tc) auto
  then have "0 < tally vs c" using Mpos by (simp add: in_tc)
  then obtain xc where "xc \<in> set vs" "snd xc = c"
    using tally_pos_vote by blast
  then have "\<exists>x \<in> set vs. snd x \<in> set tc" using c by auto
  from split_list_last_prop [OF this] obtain pre x post where
    sp: "vs = pre @ x # post" "snd x \<in> set tc" "\<forall>z \<in> set post. snd z \<notin> set tc"
    by blast
  have fd: "find (\<lambda>t. t \<in> set tc) (rev (map snd vs)) = Some (snd x)"
    unfolding sp(1) using sp(2,3)
    by (simp add: find_append_first)
  have lt: "length tc = 1 \<Longrightarrow> tc ! 0 = snd x"
  proof -
    assume "length tc = 1"
    then obtain c' where "tc = [c']" by (cases tc) auto
    with sp(2) show ?thesis by simp
  qed
  have "mafiaVote_resolve g =
     (if length tc = 1 then Some (tc ! 0)
      else if length tc > 1 then find (\<lambda>t. t \<in> set tc) (rev (map snd vs)) else None)"
    using mafiaVote_resolve_eq [OF assms(1-3) ne]
    by (simp add: Let_def tc_def names_def vs_def)
  then have res: "mafiaVote_resolve g = Some (snd x)"
    using \<open>tc \<noteq> []\<close> lt fd by (cases tc) auto
  have top: "\<forall>k \<in> set names. tally vs k \<le> tally vs (snd x)"
    using sp(2) top_tally_greatest [of _ names vs] by (simp add: in_tc M_def)
  have later: "\<forall>w \<in> set post. tally vs (snd w) < tally vs (snd x)"
  proof
    fix w assume w: "w \<in> set post"
    then have "snd w \<in> set names" using targets sp(1) by auto
    moreover from w sp(3) have "snd w \<notin> set tc" by blast
    ultimately have "tally vs (snd w) \<noteq> M" by (simp add: in_tc)
    moreover have "tally vs (snd w) \<le> M"
      unfolding M_def using \<open>snd w \<in> set names\<close> by (rule top_tally_greatest)
    ultimately show "tally vs (snd w) < tally vs (snd x)"
      using sp(2) by (simp add: in_tc)
  qed
  have "vs = pre @ (fst x, snd x) # post" using sp(1) by simp
  with res top later show ?thesis
    unfolding vs_def names_def by blast
qed

text \<open>
  C1.  Mafia-vote resolution at a roster with a player named \<open>__proto__\<close>.  \<open>ann\<close> is the
  only alive Mafia player and votes for the alive player \<open>__proto__\<close>, so the ledger is
  complete and \<open>__proto__\<close> is the one target with a vote.  The tally object gets no
  property for that name, the vote is not counted, every other name ties at zero and is
  no vote's target: the resolution selects nobody, \<open>mafiaTarget\<close> stays \<open>null\<close>, and the
  game goes on to the detective phase.
\<close>

theorem mafiaVote_ignores_votes_for_proto:
  "tally (mafiaVotes proto_night_game @ [(''ann'', ''__proto__'')]) ''__proto__'' = 1
   \<and> aliveMafia proto_night_game = 1
   \<and> mafiaVote_resolve (proto_night_game\<lparr>mafiaVotes := [(''ann'', ''__proto__'')]\<rparr>) = None
   \<and> fst (snd (mafiaVote (Some proto_night_game) ''ann'' ''__proto__''))
       = Some (proto_night_game\<lparr>mafiaVotes := [(''ann'', ''__proto__'')], mafiaTarget := None,
                                currentPhase := Ph_nightDetective\<rparr>)"
proof -
  have t: "tally (mafiaVotes proto_night_game @ [(''ann'', ''__proto__'')]) ''__proto__'' = 1"
    by (simp add: proto_night_game_def mk_game_def tally_def)
  have m: "aliveMafia proto_night_game = 1"
    by (simp add: aliveMafia_def proto_night_game_def mk_game_def mk_player_def)
  have vc: "voteCount_of (players proto_night_game) [(''ann'', ''__proto__'')]
              = [(''ann'', Num 0), (''cy'', Num 0), (''dee'', Num 0), (''eve'', Num 0)]"
    by (simp add: voteCount_of_def obj_assign_def obj_incr_def obj_get_num_def
          proto_night_game_def mk_game_def mk_player_def)
  have oe: "Object_entries [(''ann'', Num 0), (''cy'', Num 0), (''dee'', Num 0), (''eve'', Num 0)]
              = [(''ann'', Num 0), (''cy'', Num 0), (''dee'', Num 0), (''eve'', Num 0)]"
    by (simp add: Object_entries_def array_index_letters)
  have r: "mafiaVote_resolve (proto_night_game\<lparr>mafiaVotes := [(''ann'', ''__proto__'')]\<rparr>) = None"
    using vc by (simp add: mafiaVote_resolve_def oe Math_max_def js_eq_def Let_def)
  have a: "state proto_night_game = St_inProgress" "currentPhase proto_night_game = Ph_nightMafia"
    "find (\<lambda>p. (role p = Mafia \<or> role p = Godfather) \<and> name p = ''ann'' \<and> isAlive p)
       (players proto_night_game) = Some (mk_player ''ann'' Mafia True)"
    "\<not> Map_has (mafiaVotes proto_night_game) ''ann''"
    "find (\<lambda>p. name p = ''__proto__'' \<and> isAlive p) (players proto_night_game)
       = Some (mk_player ''__proto__'' Villager True)"
    by (simp_all add: proto_night_game_def mk_game_def mk_player_def Map_has_def)
  have k: "\<not> Map_key_refused ''ann''"
    by (simp add: Map_key_refused_def)
  have p: "put ''ann'' ''__proto__'' (mafiaVotes proto_night_game) = [(''ann'', ''__proto__'')]"
    by (simp add: proto_night_game_def mk_game_def)
  have d: "alive_with_role Detective
             (proto_night_game\<lparr>mafiaVotes := [(''ann'', ''__proto__'')], mafiaTarget := None\<rparr>)"
    by (simp add: alive_with_role_def proto_night_game_def mk_game_def mk_player_def)
  have "fst (snd (mafiaVote (Some proto_night_game) ''ann'' ''__proto__''))
       = Some (proto_night_game\<lparr>mafiaVotes := [(''ann'', ''__proto__'')], mafiaTarget := None,
                                currentPhase := Ph_nightDetective\<rparr>)"
    unfolding mafiaVote_valid [OF a k] Let_def p
    by (simp add: m r setPhase_nightDetective d)
  with t m r show ?thesis by blast
qed

theorem mafiaVote_ignores_votes_for_proto_witness:
  "state proto_night_game = St_inProgress \<and> currentPhase proto_night_game = Ph_nightMafia
   \<and> mafiaTarget proto_night_game = None
   \<and> map_option mafiaTarget (fst (snd (mafiaVote (Some proto_night_game) ''ann'' ''__proto__'')))
       = Some None
   \<and> map_option currentPhase (fst (snd (mafiaVote (Some proto_night_game) ''ann'' ''__proto__'')))
       = Some Ph_nightDetective"
proof -
  have "state proto_night_game = St_inProgress" "currentPhase proto_night_game = Ph_nightMafia"
    "mafiaTarget proto_night_game = None"
    by (simp_all add: proto_night_game_def mk_game_def)
  with mafiaVote_ignores_votes_for_proto show ?thesis
    by simp
qed

text \<open>The two ledgers of the specification: a strict majority, and a tie of two votes.\<close>

lemma mafiaVote_resolve_examples:
  "mafiaVote_resolve
     ((mk_game Ph_nightMafia
         [mk_player ''A'' Mafia True, mk_player ''B'' Mafia True, mk_player ''C'' Godfather True,
          mk_player ''X'' Villager True, mk_player ''Y'' Doctor True])
      \<lparr>mafiaVotes := [(''A'', ''X''), (''B'', ''X''), (''C'', ''Y'')]\<rparr>) = Some ''X''"
  "mafiaVote_resolve
     ((mk_game Ph_nightMafia
         [mk_player ''A'' Mafia True, mk_player ''B'' Godfather True,
          mk_player ''X'' Villager True, mk_player ''Y'' Doctor True])
      \<lparr>mafiaVotes := [(''A'', ''X''), (''B'', ''Y'')]\<rparr>) = Some ''Y''"
proof -
  have ai: "array_index ''A'' = None" "array_index ''B'' = None" "array_index ''C'' = None"
    "array_index ''X'' = None" "array_index ''Y'' = None"
    by (simp_all add: array_index_def digit_of_def)
  show "mafiaVote_resolve
     ((mk_game Ph_nightMafia
         [mk_player ''A'' Mafia True, mk_player ''B'' Mafia True, mk_player ''C'' Godfather True,
          mk_player ''X'' Villager True, mk_player ''Y'' Doctor True])
      \<lparr>mafiaVotes := [(''A'', ''X''), (''B'', ''X''), (''C'', ''Y'')]\<rparr>) = Some ''X''"
    by (simp add: mafiaVote_resolve_def voteCount_of_def obj_assign_def obj_incr_def
          obj_get_num_def mk_game_def mk_player_def Object_entries_def ai Math_max_def js_eq_def
          Let_def)
  show "mafiaVote_resolve
     ((mk_game Ph_nightMafia
         [mk_player ''A'' Mafia True, mk_player ''B'' Godfather True,
          mk_player ''X'' Villager True, mk_player ''Y'' Doctor True])
      \<lparr>mafiaVotes := [(''A'', ''X''), (''B'', ''Y'')]\<rparr>) = Some ''Y''"
    by (simp add: mafiaVote_resolve_def voteCount_of_def obj_assign_def obj_incr_def
          obj_get_num_def mk_game_def mk_player_def Object_entries_def ai Math_max_def js_eq_def
          Let_def)
qed

section \<open>A vote that completes the day ledger\<close>

lemma set_put: "set (put k v m) \<subseteq> insert (k, v) (set m)"
  by (induction m) (auto split: if_splits)

lemma set_Object_entries [simp]: "set (Object_entries obj) = set obj"
  by (auto simp: Object_entries_def)

lemma players_fold_keys:
  assumes "\<forall>(k, c) \<in> set obj. c = NaN \<or> k \<in> N" "set (map name ps) \<subseteq> N"
  shows "\<forall>(k, c) \<in> set (fold (\<lambda>p obj. obj_assign obj (name p) (Num 0)) ps obj). c = NaN \<or> k \<in> N"
  using assms
proof (induction ps arbitrary: obj)
  case Nil
  then show ?case by simp
next
  case (Cons p ps)
  have "\<forall>(k, c) \<in> set (obj_assign obj (name p) (Num 0)). c = NaN \<or> k \<in> N"
    using Cons.prems set_put [of "name p" "Num 0" obj] by (auto simp: obj_assign_def)
  with Cons show ?case by simp
qed

lemma votes_fold_keys:
  assumes "\<forall>(k, c) \<in> set obj. c = NaN \<or> k \<in> N"
  shows "\<forall>(k, c) \<in> set (fold (\<lambda>(voter, target) obj. obj_incr obj target) vs obj). c = NaN \<or> k \<in> N"
  using assms
proof (induction vs arbitrary: obj)
  case Nil
  then show ?case by simp
next
  case (Cons x vs)
  obtain voter t where x: "x = (voter, t)" by (cases x)
  have new: "js_incr (obj_get_num obj t) = NaN \<or> t \<in> N"
  proof (cases "map_of obj t")
    case None
    then show ?thesis by (simp add: obj_get_num_def)
  next
    case (Some c)
    then have "(t, c) \<in> set obj" by (rule map_of_SomeD)
    with Cons.prems have "c = NaN \<or> t \<in> N" by auto
    with Some show ?thesis by (auto simp: obj_get_num_def)
  qed
  have "\<forall>(k, c) \<in> set (obj_incr obj t). c = NaN \<or> k \<in> N"
    using Cons.prems new set_put [of t "js_incr (obj_get_num obj t)" obj]
    by (auto simp: obj_incr_def obj_assign_def)
  with Cons.IH show ?case by (simp add: x)
qed

lemma voteCount_of_keys:
  "(k, c) \<in> set (voteCount_of ps vs) \<Longrightarrow> c = NaN \<or> k \<in> set (map name ps)"
proof -
  have "\<forall>(k, c) \<in> set (fold (\<lambda>p obj. obj_assign obj (name p) (Num 0)) ps []).
          c = NaN \<or> k \<in> set (map name ps)"
    by (rule players_fold_keys) simp_all
  then have "\<forall>(k, c) \<in> set (voteCount_of ps vs). c = NaN \<or> k \<in> set (map name ps)"
    unfolding voteCount_of_def by (rule votes_fold_keys)
  then show "(k, c) \<in> set (voteCount_of ps vs) \<Longrightarrow> c = NaN \<or> k \<in> set (map name ps)"
    by auto
qed

lemma dayVote_resolve_names:
  assumes "dayVote_resolve g n = Some e"
  shows "e \<in> set (map name (players g))"
proof -
  define obj where "obj = voteCount_of (players g) (votes g)"
  define mx where "mx = Math_max (map snd (Object_entries obj))"
  define cands where "cands = map fst (filter (\<lambda>(_, count). js_eq count mx) (Object_entries obj))"
  have "cands \<noteq> [] \<and> e = hd cands"
    using assms unfolding dayVote_resolve_def Let_def obj_def [symmetric] mx_def [symmetric]
      cands_def [symmetric]
    by (cases cands) (auto split: if_splits)
  then have "e \<in> set cands" by auto
  then obtain c where "(e, c) \<in> set obj" "js_eq c mx"
    by (auto simp: cands_def)
  then have "c \<noteq> NaN" "c = NaN \<or> e \<in> set (map name (players g))"
    using voteCount_of_keys [of e c "players g" "votes g"] by (auto simp: js_eq_def obj_def)
  then show ?thesis by simp
qed

text \<open>
  A vote that completes the day ledger: the handler ends in the tail that evaluates the win
  conditions, on the game after the elimination step.  No player name is missing there, so
  the write to the eliminated player cannot fail.
\<close>

lemma dayVote_complete:
  assumes "state g = St_inProgress" "currentPhase g = Ph_day"
    "find (\<lambda>p. name p = v \<and> isAlive p) (players g) = Some x"
    "\<not> Map_has (votes g) v"
    "find (\<lambda>p. name p = t \<and> isAlive p) (players g) = Some y"
    "\<not> Map_key_refused v"
    "Suc (length (votes g)) = length (filter isAlive (players g))"
  shows "\<exists>ge ev0. dayVote (Some g) v t = dayVote_finish ge ev0
           \<and> state ge = St_inProgress \<and> (\<forall>e \<in> set ev0. \<not> is_GameOver (snd e))"
proof -
  define g1 where "g1 = g\<lparr>votes := votes g @ [(v, t)]\<rparr>"
  define n where "n = length (filter isAlive (players g))"
  define ev1 where "ev1 = [(Room (gameId g), GameUpdated g1)]"
  have dv: "dayVote (Some g) v t =
     (case dayVote_resolve g1 n of
        None \<Rightarrow> dayVote_finish g1 ev1
      | Some e \<Rightarrow>
          if truthy (Some e) then
            (case find (\<lambda>p. name p = e) (players g) of
               None \<Rightarrow> (Status500, Some g1, ev1)
             | Some p \<Rightarrow>
                 dayVote_finish
                   (g1\<lparr>players := update_first (\<lambda>p. name p = e)
                                    (\<lambda>p. p\<lparr>isAlive := False\<rparr>) (players g),
                       lastKilled := Some e\<rparr>)
                   (ev1 @ [(Room (gameId g), PlayerEliminated e ''vote''),
                           (Room (gameId g), DayVoteResult e)]))
          else dayVote_finish g1 ev1)"
    using assms(7)
    by (simp add: dayVote_valid [OF assms(1-6)] Let_def g1_def n_def ev1_def
          cong: option.case_cong if_cong)
  have st1: "state g1 = St_inProgress" using assms(1) by (simp add: g1_def)
  have e1: "\<forall>e \<in> set ev1. \<not> is_GameOver (snd e)" by (simp add: ev1_def)
  show ?thesis
  proof (cases "dayVote_resolve g1 n")
    case None
    with dv st1 e1 show ?thesis by auto
  next
    case (Some e)
    show ?thesis
    proof (cases "truthy (Some e)")
      case False
      with Some dv st1 e1 show ?thesis by auto
    next
      case True
      from dayVote_resolve_names [OF Some] have "e \<in> set (map name (players g))"
        by (simp add: g1_def)
      from find_name_exists [OF this] obtain p where p: "find (\<lambda>p. name p = e) (players g) = Some p"
        by blast
      define g2 where "g2 = g1\<lparr>players := update_first (\<lambda>p. name p = e)
                                          (\<lambda>p. p\<lparr>isAlive := False\<rparr>) (players g),
                                lastKilled := Some e\<rparr>"
      define ev2 where "ev2 = ev1 @ [(Room (gameId g), PlayerEliminated e ''vote''),
                                     (Room (gameId g), DayVoteResult e)]"
      have "dayVote (Some g) v t = dayVote_finish g2 ev2"
        using Some True p by (simp add: dv g2_def ev2_def)
      moreover have "state g2 = St_inProgress" using st1 by (simp add: g2_def)
      moreover have "\<forall>e \<in> set ev2. \<not> is_GameOver (snd e)" by (simp add: ev2_def ev1_def)
      ultimately show ?thesis by blast
    qed
  qed
qed

lemma aliveMafia_phase [simp]:
  "aliveMafia (g\<lparr>currentPhase := x\<rparr>) = aliveMafia g" "aliveMafia (g\<lparr>state := y\<rparr>) = aliveMafia g"
  by (simp_all add: aliveMafia_def)

lemma aliveTown_phase [simp]:
  "aliveTown (g\<lparr>currentPhase := x\<rparr>) = aliveTown g" "aliveTown (g\<lparr>state := y\<rparr>) = aliveTown g"
  by (simp_all add: aliveTown_def)

lemma dayVote_finish_verdict:
  assumes "state g = St_inProgress" "\<forall>e \<in> set ev. \<not> is_GameOver (snd e)"
  shows "\<exists>r g' ev'. dayVote_finish g ev = (r, Some g', ev')
     \<and> votes g' = []
     \<and> (aliveMafia g' = 0 \<or> aliveTown g' \<le> aliveMafia g' \<longrightarrow>
          state g' = St_finished \<and> currentPhase g' = Ph_finished
          \<and> (\<exists>e \<in> set ev'. is_GameOver (snd e)))
     \<and> (\<not> (aliveMafia g' = 0 \<or> aliveTown g' \<le> aliveMafia g') \<longrightarrow>
          state g' = St_inProgress \<and> currentPhase g' = Ph_nightMafia
          \<and> (\<forall>e \<in> set ev'. \<not> is_GameOver (snd e)))"
proof (cases "aliveMafia g = 0 \<or> aliveTown g \<le> aliveMafia g")
  case True
  then show ?thesis
    using assms by (simp add: dayVote_finish_eq)
next
  case False
  then show ?thesis
    using assms by (simp add: dayVote_finish_eq)
qed

section \<open>Where the win conditions are evaluated: the day vote\<close>

text \<open>
  C10.  Night resolution evaluates no win condition: it leaves \<open>state\<close> as it is, ends in the
  day phase and emits no \<open>gameOver\<close>, whatever the head counts after the kill; so do the three
  night handlers, which are the only callers.  The win evaluation is in the day vote.  An
  accepted day vote that does not complete the ledger is only recorded.  One that completes
  it resolves and clears the ledger and then gives the verdict on the roster after the
  elimination: with a verdict the game is finished and \<open>gameOver\<close> is emitted, and only without
  one does the game stay in progress and enter the mafia night, with no \<open>gameOver\<close>.
\<close>

theorem win_evaluation_only_after_day_vote:
  "state (fst (resolveNight g)) = state g
   \<and> currentPhase (fst (resolveNight g)) = Ph_day
   \<and> (\<forall>e \<in> set (snd (resolveNight g)). \<not> is_GameOver (snd e))
   \<and> (\<forall>h \<in> {mafiaVote, investigate, doctorSave_handler}.
        \<forall>r g' ev. h (Some g) a b = (r, Some g', ev) \<longrightarrow>
          state g' = state g \<and> (\<forall>e \<in> set ev. \<not> is_GameOver (snd e)))
   \<and> (state g = St_inProgress \<longrightarrow>
        fst (snd (dayVote_finish g ev0)) =
          Some (if aliveMafia g = 0 \<or> aliveTown g \<le> aliveMafia g
                then g\<lparr>votes := [], state := St_finished, currentPhase := Ph_finished\<rparr>
                else g\<lparr>votes := [], currentPhase := Ph_nightMafia\<rparr>))
   \<and> (state g = St_inProgress \<and> currentPhase g = Ph_day
        \<and> find (\<lambda>p. name p = a \<and> isAlive p) (players g) = Some x
        \<and> \<not> Map_has (votes g) a
        \<and> find (\<lambda>p. name p = b \<and> isAlive p) (players g) = Some y
        \<and> \<not> Map_key_refused a \<longrightarrow>
        (Suc (length (votes g)) \<noteq> length (filter isAlive (players g)) \<longrightarrow>
           dayVote (Some g) a b =
             (Json (g\<lparr>votes := votes g @ [(a, b)]\<rparr>), Some (g\<lparr>votes := votes g @ [(a, b)]\<rparr>),
              [(Room (gameId g), GameUpdated (g\<lparr>votes := votes g @ [(a, b)]\<rparr>))]))
        \<and> (Suc (length (votes g)) = length (filter isAlive (players g)) \<longrightarrow>
           (\<exists>r g' ev. dayVote (Some g) a b = (r, Some g', ev)
              \<and> votes g' = []
              \<and> (aliveMafia g' = 0 \<or> aliveTown g' \<le> aliveMafia g' \<longrightarrow>
                   state g' = St_finished \<and> currentPhase g' = Ph_finished
                   \<and> (\<exists>e \<in> set ev. is_GameOver (snd e)))
              \<and> (\<not> (aliveMafia g' = 0 \<or> aliveTown g' \<le> aliveMafia g') \<longrightarrow>
                   state g' = St_inProgress \<and> currentPhase g' = Ph_nightMafia
                   \<and> (\<forall>e \<in> set ev. \<not> is_GameOver (snd e))))))"
proof -
  have a: "state (fst (resolveNight g)) = state g \<and> currentPhase (fst (resolveNight g)) = Ph_day"
    by (simp add: resolveNight_result resolveNight_body_fields)
  have b: "\<forall>e \<in> set (snd (resolveNight g)). \<not> is_GameOver (snd e)"
    using resolveNight_no_GameOver by blast
  have c: "\<forall>h \<in> {mafiaVote, investigate, doctorSave_handler}.
        \<forall>r g' ev. h (Some g) a b = (r, Some g', ev) \<longrightarrow>
          state g' = state g \<and> (\<forall>e \<in> set ev. \<not> is_GameOver (snd e))"
    using mafiaVote_keeps_state [of g a b] investigate_keeps_state [of g a b]
      doctorSave_keeps_state [of g a b]
    by blast
  have d: "state g = St_inProgress \<longrightarrow>
        fst (snd (dayVote_finish g ev0)) =
          Some (if aliveMafia g = 0 \<or> aliveTown g \<le> aliveMafia g
                then g\<lparr>votes := [], state := St_finished, currentPhase := Ph_finished\<rparr>
                else g\<lparr>votes := [], currentPhase := Ph_nightMafia\<rparr>)"
    by (simp add: dayVote_finish_eq)
  have e: "(Suc (length (votes g)) \<noteq> length (filter isAlive (players g)) \<longrightarrow>
           dayVote (Some g) a b =
             (Json (g\<lparr>votes := votes g @ [(a, b)]\<rparr>), Some (g\<lparr>votes := votes g @ [(a, b)]\<rparr>),
              [(Room (gameId g), GameUpdated (g\<lparr>votes := votes g @ [(a, b)]\<rparr>))]))
        \<and> (Suc (length (votes g)) = length (filter isAlive (players g)) \<longrightarrow>
           (\<exists>r g' ev. dayVote (Some g) a b = (r, Some g', ev)
              \<and> votes g' = []
              \<and> (aliveMafia g' = 0 \<or> aliveTown g' \<le> aliveMafia g' \<longrightarrow>
                   state g' = St_finished \<and> currentPhase g' = Ph_finished
                   \<and> (\<exists>e \<in> set ev. is_GameOver (snd e)))
              \<and> (\<not> (aliveMafia g' = 0 \<or> aliveTown g' \<le> aliveMafia g') \<longrightarrow>
                   state g' = St_inProgress \<and> currentPhase g' = Ph_nightMafia
                   \<and> (\<forall>e \<in> set ev. \<not> is_GameOver (snd e)))))"
    if ok: "state g = St_inProgress" "currentPhase g = Ph_day"
      "find (\<lambda>p. name p = a \<and> isAlive p) (players g) = Some x"
      "\<not> Map_has (votes g) a"
      "find (\<lambda>p. name p = b \<and> isAlive p) (players g) = Some y"
      "\<not> Map_key_refused a"
  proof (intro conjI impI)
    assume "Suc (length (votes g)) \<noteq> length (filter isAlive (players g))"
    then show "dayVote (Some g) a b =
             (Json (g\<lparr>votes := votes g @ [(a, b)]\<rparr>), Some (g\<lparr>votes := votes g @ [(a, b)]\<rparr>),
              [(Room (gameId g), GameUpdated (g\<lparr>votes := votes g @ [(a, b)]\<rparr>))])"
      by (simp add: dayVote_valid [OF ok] Let_def)
  next
    assume "Suc (length (votes g)) = length (filter isAlive (players g))"
    from dayVote_complete [OF ok this] obtain ge ev1 where
      ge: "dayVote (Some g) a b = dayVote_finish ge ev1" "state ge = St_inProgress"
        "\<forall>e \<in> set ev1. \<not> is_GameOver (snd e)"
      by blast
    from dayVote_finish_verdict [OF ge(2,3)] show
      "\<exists>r g' ev. dayVote (Some g) a b = (r, Some g', ev)
              \<and> votes g' = []
              \<and> (aliveMafia g' = 0 \<or> aliveTown g' \<le> aliveMafia g' \<longrightarrow>
                   state g' = St_finished \<and> currentPhase g' = Ph_finished
                   \<and> (\<exists>e \<in> set ev. is_GameOver (snd e)))
              \<and> (\<not> (aliveMafia g' = 0 \<or> aliveTown g' \<le> aliveMafia g') \<longrightarrow>
                   state g' = St_inProgress \<and> currentPhase g' = Ph_nightMafia
                   \<and> (\<forall>e \<in> set ev. \<not> is_GameOver (snd e)))"
      unfolding ge(1) .
  qed
  from a b c d e show ?thesis by blast
qed

theorem win_evaluation_only_after_day_vote_witness:
  "aliveTown (fst (resolveNight last_townsman_game)) = 0
   \<and> aliveMafia (fst (resolveNight last_townsman_game)) = 1
   \<and> state (fst (resolveNight last_townsman_game)) = St_inProgress
   \<and> currentPhase (fst (resolveNight last_townsman_game)) = Ph_day
   \<and> fst (snd (dayVote_finish (fst (resolveNight last_townsman_game)) []))
       = Some ((fst (resolveNight last_townsman_game))
                 \<lparr>votes := [], state := St_finished, currentPhase := Ph_finished\<rparr>)
   \<and> Suc (length (votes day_game)) = length (filter isAlive (players day_game))
   \<and> (\<exists>r g' ev. dayVote (Some day_game) ''dee'' ''cy'' = (r, Some g', ev)
         \<and> aliveMafia g' = 1 \<and> aliveTown g' = 2
         \<and> state g' = St_inProgress \<and> currentPhase g' = Ph_nightMafia
         \<and> \<not> list_ex (\<lambda>e. is_GameOver (snd e)) ev)"
proof -
  have p: "players (fst (resolveNight last_townsman_game)) =
        [mk_player ''ann'' Mafia True, mk_player ''bob'' Godfather False,
         mk_player ''cy'' Detective False, mk_player ''dee'' Doctor False,
         mk_player ''eve'' Villager False, mk_player ''fay'' Villager False]"
    by (simp add: resolveNight_result resolveNight_body_players last_townsman_game_def
          mk_game_def mk_player_def truthy_def)
  have t: "aliveTown (fst (resolveNight last_townsman_game)) = 0"
    and m: "aliveMafia (fst (resolveNight last_townsman_game)) = 1"
    by (simp_all add: aliveTown_def aliveMafia_def p mk_player_def)
  have s: "state last_townsman_game = St_inProgress"
    by (simp add: last_townsman_game_def mk_game_def)
  note w1 = win_evaluation_only_after_day_vote [of last_townsman_game]
  note w2 = win_evaluation_only_after_day_vote [of "fst (resolveNight last_townsman_game)" _ _ "[]"]
  from w1 s have r1: "state (fst (resolveNight last_townsman_game)) = St_inProgress"
    and r2: "currentPhase (fst (resolveNight last_townsman_game)) = Ph_day"
    by simp_all
  from w2 r1 t m have r3: "fst (snd (dayVote_finish (fst (resolveNight last_townsman_game)) []))
       = Some ((fst (resolveNight last_townsman_game))
                 \<lparr>votes := [], state := St_finished, currentPhase := Ph_finished\<rparr>)"
    by simp
  have a: "state day_game = St_inProgress" "currentPhase day_game = Ph_day"
    "find (\<lambda>p. name p = ''dee'' \<and> isAlive p) (players day_game) = Some (mk_player ''dee'' Doctor True)"
    "\<not> Map_has (votes day_game) ''dee''"
    "find (\<lambda>p. name p = ''cy'' \<and> isAlive p) (players day_game) = Some (mk_player ''cy'' Detective True)"
    "\<not> Map_key_refused ''dee''"
    by (simp_all add: day_game_def mk_game_def mk_player_def Map_has_def Map_key_refused_def)
  have n: "Suc (length (votes day_game)) = length (filter isAlive (players day_game))"
    by (simp add: day_game_def mk_game_def mk_player_def)
  have n4: "length (filter isAlive (players day_game)) = 4" "length (votes day_game) = 3"
    by (simp_all add: day_game_def mk_game_def mk_player_def)
  have vc: "voteCount_of (players day_game) (votes day_game @ [(''dee'', ''cy'')])
    = [(''ann'', Num 0), (''bob'', Num 0), (''cy'', Num 2), (''dee'', Num 2), (''eve'', Num 0),
       (''fay'', Num 0)]"
    by (simp add: voteCount_of_def obj_assign_def obj_incr_def obj_get_num_def
          day_game_def mk_game_def mk_player_def numeral_2_eq_2)
  have oe: "Object_entries [(''ann'', Num 0), (''bob'', Num 0), (''cy'', Num 2), (''dee'', Num 2),
                            (''eve'', Num 0), (''fay'', Num 0)]
    = [(''ann'', Num 0), (''bob'', Num 0), (''cy'', Num 2), (''dee'', Num 2), (''eve'', Num 0),
       (''fay'', Num 0)]"
    by (simp add: Object_entries_def array_index_letters)
  have dr: "dayVote_resolve (day_game\<lparr>votes := votes day_game @ [(''dee'', ''cy'')]\<rparr>) 4
            = Some ''cy''"
    using vc by (simp add: dayVote_resolve_def oe Math_max_def js_eq_def Let_def)
  have res: "fst (snd (dayVote (Some day_game) ''dee'' ''cy''))
       = Some (day_game
                 \<lparr>players := [mk_player ''ann'' Mafia True, mk_player ''bob'' Godfather False,
                              mk_player ''cy'' Detective False, mk_player ''dee'' Doctor True,
                              mk_player ''eve'' Villager True, mk_player ''fay'' Villager False],
                  votes := [], lastKilled := Some ''cy'', currentPhase := Ph_nightMafia\<rparr>)"
    unfolding dayVote_valid [OF a] Let_def
    apply (simp add: n4 dr truthy_def)
    apply (simp add: day_game_def mk_game_def mk_player_def dayVote_finish_def
             checkWinConditions_def setPhase_nightMafia Let_def)
    done
  from win_evaluation_only_after_day_vote
         [of day_game "''dee''" "''cy''" _ "mk_player ''dee'' Doctor True"
             "mk_player ''cy'' Detective True"] a n
  obtain r g' ev where
    dv: "dayVote (Some day_game) ''dee'' ''cy'' = (r, Some g', ev)"
    and nv: "\<not> (aliveMafia g' = 0 \<or> aliveTown g' \<le> aliveMafia g') \<longrightarrow>
               state g' = St_inProgress \<and> currentPhase g' = Ph_nightMafia
               \<and> (\<forall>e \<in> set ev. \<not> is_GameOver (snd e))"
    by blast
  from dv res have g': "g' = day_game
                 \<lparr>players := [mk_player ''ann'' Mafia True, mk_player ''bob'' Godfather False,
                              mk_player ''cy'' Detective False, mk_player ''dee'' Doctor True,
                              mk_player ''eve'' Villager True, mk_player ''fay'' Villager False],
                  votes := [], lastKilled := Some ''cy'', currentPhase := Ph_nightMafia\<rparr>"
    by simp
  have cnt: "aliveMafia g' = 1" "aliveTown g' = 2"
    unfolding g' by (simp_all add: aliveMafia_def aliveTown_def mk_player_def)
  with nv have fin: "state g' = St_inProgress" "currentPhase g' = Ph_nightMafia"
    "\<not> list_ex (\<lambda>e. is_GameOver (snd e)) ev"
    by (simp_all add: list_ex_iff)
  have "\<exists>r g' ev. dayVote (Some day_game) ''dee'' ''cy'' = (r, Some g', ev)
         \<and> aliveMafia g' = 1 \<and> aliveTown g' = 2
         \<and> state g' = St_inProgress \<and> currentPhase g' = Ph_nightMafia
         \<and> \<not> list_ex (\<lambda>e. is_GameOver (snd e)) ev"
    by (intro exI conjI) (rule dv cnt fin)+
  with t m r1 r2 r3 n show ?thesis
    by (simp only: simp_thms)
qed

end
